theory Spec2Isabelle
  imports Main
begin

section \<open>The metrics record and the values it holds\<close>

text \<open>
  The program is \<^verbatim>\<open>menubar/main.go\<close>. A message read from the socket is a byte
  string; \<^typ>\<open>char\<close> is a byte.

  A \<^verbatim>\<open>float64\<close> is not computed with: the model keeps, for a field of that type, the
  number literal that \<^verbatim>\<open>strconv.ParseFloat\<close> rounded to the nearest binary64 value.
  The zero value of the type is the value of the literal \<^verbatim>\<open>0\<close>. Two literals that
  round to the same binary64 value are different terms here, so equality of two
  \<open>float64\<close> terms is never used to tell two values apart.
\<close>

type_synonym bytes = string

datatype float64 = Nearest string

definition float64_zero :: float64 where
  "float64_zero = Nearest ''0''"

text \<open>
  \<^verbatim>\<open>type Metrics struct\<close>, with Go's \<^verbatim>\<open>int\<close> taken as 64 bits wide. The fields hold what
  the decoder stored; the program does no arithmetic on them.
\<close>

record Metrics =
  Keypresses :: int
  MouseClicks :: int
  MouseDistanceIn :: float64
  MouseDistanceMi :: float64
  ScrollSteps :: int

text \<open>\<^verbatim>\<open>var metrics Metrics\<close>: every field has its zero value.\<close>

definition Metrics_zero :: Metrics where
  "Metrics_zero = \<lparr>Keypresses = 0, MouseClicks = 0, MouseDistanceIn = float64_zero,
     MouseDistanceMi = float64_zero, ScrollSteps = 0\<rparr>"

text \<open>Go's \<^verbatim>\<open>error\<close> values the program can meet.\<close>

datatype error =
    SyntaxError
  | UnmarshalTypeError string
  | ErrNotExist
  | ErrClosed
  | EOF
  | Errno string

section \<open>\<^verbatim>\<open>encoding/json\<close>: the scanner\<close>

text \<open>
  \<^verbatim>\<open>json.Unmarshal\<close> first checks that the whole input is one JSON text
  (\<^verbatim>\<open>checkValid\<close>) and only then stores values. The check is modelled in two passes
  over the input, both by structural recursion: bytes to tokens, tokens to a value.
  A string token keeps the bytes between its quotes as they stand, escapes included.
\<close>

datatype token =
    TObjOpen | TObjClose | TArrOpen | TArrClose | TColon | TComma
  | TString string | TNumber string | TTrue | TFalse | TNull

definition isSpace :: "char \<Rightarrow> bool" where
  "isSpace c = (c = CHR '' '' \<or> c = CHR 0x09 \<or> c = CHR 0x0D \<or> c = CHR 0x0A)"

definition isDigit :: "char \<Rightarrow> bool" where
  "isDigit c = (48 \<le> (of_char c :: nat) \<and> (of_char c :: nat) \<le> 57)"

definition isDigit19 :: "char \<Rightarrow> bool" where
  "isDigit19 c = (49 \<le> (of_char c :: nat) \<and> (of_char c :: nat) \<le> 57)"

definition isHex :: "char \<Rightarrow> bool" where
  "isHex c = (isDigit c
     \<or> (97 \<le> (of_char c :: nat) \<and> (of_char c :: nat) \<le> 102)
     \<or> (65 \<le> (of_char c :: nat) \<and> (of_char c :: nat) \<le> 70))"

text \<open>
  The states of a number literal, named as in \<^verbatim>\<open>scanner.go\<close>: \<^verbatim>\<open>stateNeg\<close>,
  \<^verbatim>\<open>state0\<close>, \<^verbatim>\<open>state1\<close>, \<^verbatim>\<open>stateDot\<close>, \<^verbatim>\<open>stateDot0\<close>, \<^verbatim>\<open>stateE\<close>,
  \<^verbatim>\<open>stateESign\<close>, \<^verbatim>\<open>stateE0\<close>.
\<close>

datatype numstate =
  stateNeg | state0 | state1 | stateDot | stateDot0 | stateE | stateESign | stateE0

fun numNext :: "numstate \<Rightarrow> char \<Rightarrow> numstate option" where
  "numNext stateNeg c =
     (if c = CHR ''0'' then Some state0 else if isDigit19 c then Some state1 else None)"
| "numNext state0 c =
     (if c = CHR ''.'' then Some stateDot
      else if c = CHR ''e'' \<or> c = CHR ''E'' then Some stateE else None)"
| "numNext state1 c =
     (if isDigit c then Some state1
      else if c = CHR ''.'' then Some stateDot
      else if c = CHR ''e'' \<or> c = CHR ''E'' then Some stateE else None)"
| "numNext stateDot c = (if isDigit c then Some stateDot0 else None)"
| "numNext stateDot0 c =
     (if isDigit c then Some stateDot0
      else if c = CHR ''e'' \<or> c = CHR ''E'' then Some stateE else None)"
| "numNext stateE c =
     (if c = CHR ''+'' \<or> c = CHR ''-'' then Some stateESign
      else if isDigit c then Some stateE0 else None)"
| "numNext stateESign c = (if isDigit c then Some stateE0 else None)"
| "numNext stateE0 c = (if isDigit c then Some stateE0 else None)"

fun numFinal :: "numstate \<Rightarrow> bool" where
  "numFinal state0 = True"
| "numFinal state1 = True"
| "numFinal stateDot0 = True"
| "numFinal stateE0 = True"
| "numFinal _ = False"

text \<open>
  The lexer's state: between tokens; inside a string (with the bytes so far), after a
  backslash, inside the four hex digits of \<^verbatim>\<open>\u\<close>; inside a number; inside one of
  \<^verbatim>\<open>true\<close>, \<^verbatim>\<open>false\<close>, \<^verbatim>\<open>null\<close> (with the bytes still expected).
\<close>

datatype lexstate =
    LBegin
  | LString string
  | LEscape string
  | LHex string nat
  | LNumber numstate string
  | LLiteral string token

definition lexBegin :: "char \<Rightarrow> (token list \<times> lexstate) option" where
  "lexBegin c =
     (if isSpace c then Some ([], LBegin)
      else if c = CHR ''{'' then Some ([TObjOpen], LBegin)
      else if c = CHR ''}'' then Some ([TObjClose], LBegin)
      else if c = CHR ''['' then Some ([TArrOpen], LBegin)
      else if c = CHR '']'' then Some ([TArrClose], LBegin)
      else if c = CHR '':'' then Some ([TColon], LBegin)
      else if c = CHR '','' then Some ([TComma], LBegin)
      else if c = CHR 0x22 then Some ([], LString [])
      else if c = CHR ''-'' then Some ([], LNumber stateNeg [c])
      else if c = CHR ''0'' then Some ([], LNumber state0 [c])
      else if isDigit19 c then Some ([], LNumber state1 [c])
      else if c = CHR ''t'' then Some ([], LLiteral ''rue'' TTrue)
      else if c = CHR ''f'' then Some ([], LLiteral ''alse'' TFalse)
      else if c = CHR ''n'' then Some ([], LLiteral ''ull'' TNull)
      else None)"

fun lexStep :: "lexstate \<Rightarrow> char \<Rightarrow> (token list \<times> lexstate) option" where
  "lexStep LBegin c = lexBegin c"
| "lexStep (LString acc) c =
     (if c = CHR 0x22 then Some ([TString acc], LBegin)
      else if c = CHR 0x5C then Some ([], LEscape (acc @ [c]))
      else if (of_char c :: nat) < 32 then None
      else Some ([], LString (acc @ [c])))"
| "lexStep (LEscape acc) c =
     (if c = CHR ''u'' then Some ([], LHex (acc @ [c]) 0)
      else if c \<in> set [CHR ''b'', CHR ''f'', CHR ''n'', CHR ''r'', CHR ''t'',
                        CHR 0x5C, CHR ''/'', CHR 0x22]
      then Some ([], LString (acc @ [c]))
      else None)"
| "lexStep (LHex acc k) c =
     (if isHex c then Some ([], if k = 3 then LString (acc @ [c]) else LHex (acc @ [c]) (Suc k))
      else None)"
| "lexStep (LNumber st acc) c =
     (case numNext st c of
        Some st' \<Rightarrow> Some ([], LNumber st' (acc @ [c]))
      | None \<Rightarrow>
          if numFinal st
          then (case lexBegin c of
                  None \<Rightarrow> None
                | Some (ts, l) \<Rightarrow> Some (TNumber acc # ts, l))
          else None)"
| "lexStep (LLiteral [] t) c = None"
| "lexStep (LLiteral (e # es) t) c =
     (if c \<noteq> e then None
      else if es = [] then Some ([t], LBegin)
      else Some ([], LLiteral es t))"

fun lexEof :: "lexstate \<Rightarrow> token list option" where
  "lexEof LBegin = Some []"
| "lexEof (LNumber st acc) = (if numFinal st then Some [TNumber acc] else None)"
| "lexEof _ = None"

fun lexer :: "lexstate \<Rightarrow> bytes \<Rightarrow> token list option" where
  "lexer l [] = lexEof l"
| "lexer l (c # cs) =
     (case lexStep l c of
        None \<Rightarrow> None
      | Some (ts, l') \<Rightarrow> map_option ((@) ts) (lexer l' cs))"

text \<open>
  The JSON value of a text. An object keeps its members in the order of the text, with
  repeated keys; a key is kept as the string token has it.
\<close>

datatype json =
    JNull
  | JBool bool
  | JNumber string
  | JString string
  | JArray "json list"
  | JObject "(string \<times> json) list"

text \<open>
  The parser's stack holds the containers that are open: an array with its elements so
  far, an object with its members so far, or an object whose next member has its key.
  \<^verbatim>\<open>maxNestingDepth\<close> is the scanner's bound on the stack.
\<close>

datatype frame =
    InArray "json list"
  | InObject "(string \<times> json) list"
  | InMember "(string \<times> json) list" string

datatype parsestate =
    PValue | PValueOrEnd | PKeyOrEnd | PKey | PColon | PAfterValue | PEndTop json

definition maxNestingDepth :: nat where
  "maxNestingDepth = 10000"

fun endValue :: "json \<Rightarrow> frame list \<Rightarrow> (parsestate \<times> frame list) option" where
  "endValue v [] = Some (PEndTop v, [])"
| "endValue v (InArray vs # stk) = Some (PAfterValue, InArray (vs @ [v]) # stk)"
| "endValue v (InMember ms k # stk) = Some (PAfterValue, InObject (ms @ [(k, v)]) # stk)"
| "endValue v (InObject ms # stk) = None"

definition pushFrame :: "parsestate \<Rightarrow> frame \<Rightarrow> frame list \<Rightarrow> (parsestate \<times> frame list) option"
  where
  "pushFrame p f stk = (if length stk \<ge> maxNestingDepth then None else Some (p, f # stk))"

fun beginValue :: "token \<Rightarrow> frame list \<Rightarrow> (parsestate \<times> frame list) option" where
  "beginValue TObjOpen stk = pushFrame PKeyOrEnd (InObject []) stk"
| "beginValue TArrOpen stk = pushFrame PValueOrEnd (InArray []) stk"
| "beginValue (TString s) stk = endValue (JString s) stk"
| "beginValue (TNumber n) stk = endValue (JNumber n) stk"
| "beginValue TTrue stk = endValue (JBool True) stk"
| "beginValue TFalse stk = endValue (JBool False) stk"
| "beginValue TNull stk = endValue JNull stk"
| "beginValue _ stk = None"

fun parseStep :: "parsestate \<Rightarrow> frame list \<Rightarrow> token \<Rightarrow> (parsestate \<times> frame list) option" where
  "parseStep PValue stk t = beginValue t stk"
| "parseStep PValueOrEnd (InArray vs # stk) TArrClose = endValue (JArray vs) stk"
| "parseStep PValueOrEnd stk t = beginValue t stk"
| "parseStep PKeyOrEnd (InObject ms # stk) TObjClose = endValue (JObject ms) stk"
| "parseStep PKeyOrEnd (InObject ms # stk) (TString k) = Some (PColon, InMember ms k # stk)"
| "parseStep PKey (InObject ms # stk) (TString k) = Some (PColon, InMember ms k # stk)"
| "parseStep PColon stk TColon = Some (PValue, stk)"
| "parseStep PAfterValue (InArray vs # stk) TComma = Some (PValue, InArray vs # stk)"
| "parseStep PAfterValue (InArray vs # stk) TArrClose = endValue (JArray vs) stk"
| "parseStep PAfterValue (InObject ms # stk) TComma = Some (PKey, InObject ms # stk)"
| "parseStep PAfterValue (InObject ms # stk) TObjClose = endValue (JObject ms) stk"
| "parseStep _ _ _ = None"

fun parse :: "parsestate \<Rightarrow> frame list \<Rightarrow> token list \<Rightarrow> json option" where
  "parse (PEndTop v) stk [] = Some v"
| "parse p stk [] = None"
| "parse p stk (t # ts) =
     (case parseStep p stk t of
        None \<Rightarrow> None
      | Some (p', stk') \<Rightarrow> parse p' stk' ts)"

definition scan :: "bytes \<Rightarrow> json option" where
  "scan data = (case lexer LBegin data of None \<Rightarrow> None | Some ts \<Rightarrow> parse PValue [] ts)"

section \<open>\<^verbatim>\<open>encoding/json\<close>: storing into the struct\<close>

subsection \<open>Object keys\<close>

text \<open>
  \<^verbatim>\<open>utf8.EncodeRune\<close>: a surrogate or a value above \<^verbatim>\<open>U+10FFFF\<close> is written as
  \<^verbatim>\<open>U+FFFD\<close>.
\<close>

definition byte :: "nat \<Rightarrow> char" where
  "byte n = char_of n"

definition EncodeRune :: "nat \<Rightarrow> bytes" where
  "EncodeRune r =
     (if r < 0x80 then [byte r]
      else if r < 0x800 then [byte (0xC0 + r div 64), byte (0x80 + r mod 64)]
      else if (0xD800 \<le> r \<and> r < 0xE000) \<or> 0x10FFFF < r then [byte 0xEF, byte 0xBF, byte 0xBD]
      else if r < 0x10000
      then [byte (0xE0 + r div 4096), byte (0x80 + (r div 64) mod 64), byte (0x80 + r mod 64)]
      else [byte (0xF0 + r div 262144), byte (0x80 + (r div 4096) mod 64),
            byte (0x80 + (r div 64) mod 64), byte (0x80 + r mod 64)])"

definition hexval :: "char \<Rightarrow> nat" where
  "hexval c =
     (let n = (of_char c :: nat) in
      if isDigit c then n - 48 else if 97 \<le> n then n - 97 + 10 else n - 65 + 10)"

text \<open>
  \<^verbatim>\<open>getu4\<close> reads \<^verbatim>\<open>\uXXXX\<close> at the start of its argument; Go's \<^verbatim>\<open>-1\<close> is
  \<open>None\<close>.
\<close>

definition getu4 :: "bytes \<Rightarrow> nat option" where
  "getu4 s =
     (if length s < 6 \<or> s ! 0 \<noteq> CHR 0x5C \<or> s ! 1 \<noteq> CHR ''u''
         \<or> \<not> list_all isHex (take 4 (drop 2 s))
      then None
      else Some (foldl (\<lambda>a c. a * 16 + hexval c) 0 (take 4 (drop 2 s))))"

definition unescape :: "char \<Rightarrow> char" where
  "unescape c =
     (if c = CHR ''b'' then CHR 0x08
      else if c = CHR ''f'' then CHR 0x0C
      else if c = CHR ''n'' then CHR 0x0A
      else if c = CHR ''r'' then CHR 0x0D
      else if c = CHR ''t'' then CHR 0x09
      else c)"

text \<open>
  \<^verbatim>\<open>unquoteBytes\<close> on the inside of a string token that the scanner accepted. A
  \<^verbatim>\<open>\u\<close> escape becomes the UTF-8 bytes of its rune; a high surrogate followed by
  the escape of a low one is one rune, any other surrogate is \<^verbatim>\<open>U+FFFD\<close>.
  Go also rewrites a byte sequence that is not UTF-8 as \<^verbatim>\<open>U+FFFD\<close>; the model
  leaves such bytes as they are (see \<open>foldName\<close> for why no field lookup can tell).
\<close>

fun unquote :: "bytes \<Rightarrow> bytes" where
  "unquote [] = []"
| "unquote (c # cs) =
     (if c \<noteq> CHR 0x5C then c # unquote cs
      else if cs = [] then []
      else if hd cs \<noteq> CHR ''u'' then unescape (hd cs) # unquote (tl cs)
      else (case getu4 (c # cs) of
              None \<Rightarrow> []
            | Some rr \<Rightarrow>
                if 0xD800 \<le> rr \<and> rr < 0xE000
                then (case getu4 (drop 5 cs) of
                        Some rr1 \<Rightarrow>
                          if rr < 0xDC00 \<and> 0xDC00 \<le> rr1 \<and> rr1 < 0xE000
                          then EncodeRune ((rr - 0xD800) * 1024 + (rr1 - 0xDC00) + 0x10000)
                                 @ unquote (drop 11 cs)
                          else EncodeRune 0xFFFD @ unquote (drop 5 cs)
                      | None \<Rightarrow> EncodeRune 0xFFFD @ unquote (drop 5 cs))
                else EncodeRune rr @ unquote (drop 5 cs)))"

text \<open>
  \<^verbatim>\<open>foldName\<close>: the key used for the case-insensitive lookup of a field. An ASCII
  lower-case letter becomes upper case; a rune outside ASCII becomes the smallest rune
  of its fold orbit, which is an ASCII letter for exactly two runes: the Kelvin sign
  \<^verbatim>\<open>U+212A\<close> (bytes \<^verbatim>\<open>E2 84 AA\<close>) folds to \<^verbatim>\<open>K\<close> and the long s \<^verbatim>\<open>U+017F\<close> (bytes
  \<^verbatim>\<open>C5 BF\<close>) to \<^verbatim>\<open>S\<close>. Every other byte outside ASCII is kept by the model as it
  is, where Go writes the bytes of the folded rune: both are outside ASCII, and a
  folded key that has such a byte equals the folded name of no field of \<open>Metrics\<close>.
\<close>

fun foldName :: "bytes \<Rightarrow> bytes" where
  "foldName [] = []"
| "foldName (c # cs) =
     (let n = (of_char c :: nat) in
      if 97 \<le> n \<and> n \<le> 122 then byte (n - 32) # foldName cs
      else if n < 128 then c # foldName cs
      else if take 3 (c # cs) = [byte 0xE2, byte 0x84, byte 0xAA] then CHR ''K'' # foldName (drop 2 cs)
      else if take 2 (c # cs) = [byte 0xC5, byte 0xBF] then CHR ''S'' # foldName (drop 1 cs)
      else c # foldName cs)"

subsection \<open>The fields of \<open>Metrics\<close>\<close>

datatype field = FKeypresses | FMouseClicks | FMouseDistanceIn | FMouseDistanceMi | FScrollSteps

text \<open>The name of a field is its \<^verbatim>\<open>json:"..."\<close> tag.\<close>

fun name :: "field \<Rightarrow> string" where
  "name FKeypresses = ''keypresses''"
| "name FMouseClicks = ''mouse_clicks''"
| "name FMouseDistanceIn = ''mouse_distance_in''"
| "name FMouseDistanceMi = ''mouse_distance_mi''"
| "name FScrollSteps = ''scroll_steps''"

definition structFields :: "field list" where
  "structFields = [FKeypresses, FMouseClicks, FMouseDistanceIn, FMouseDistanceMi, FScrollSteps]"

text \<open>The field for a key: the one of that exact name, or else one whose folded name is the folded key.\<close>

definition lookupField :: "bytes \<Rightarrow> field option" where
  "lookupField key =
     (case find (\<lambda>f. name f = key) structFields of
        Some f \<Rightarrow> Some f
      | None \<Rightarrow> find (\<lambda>f. foldName (name f) = foldName key) structFields)"

subsection \<open>Numbers\<close>

definition digitsVal :: "string \<Rightarrow> int" where
  "digitsVal ds = foldl (\<lambda>a c. a * 10 + (of_char c - 48)) 0 ds"

text \<open>
  \<^verbatim>\<open>strconv.ParseInt(s, 10, 64)\<close>: an optional sign and decimal digits, in the range of
  a signed 64-bit integer; \<open>None\<close> is Go's error.
\<close>

definition ParseInt :: "string \<Rightarrow> int option" where
  "ParseInt s =
     (let neg = (s \<noteq> [] \<and> hd s = CHR ''-'');
          ds = (if s \<noteq> [] \<and> (hd s = CHR ''+'' \<or> hd s = CHR ''-'') then tl s else s);
          un = digitsVal ds
      in if ds = [] \<or> \<not> list_all isDigit ds then None
         else if \<not> neg \<and> un \<ge> 2 ^ 63 then None
         else if neg \<and> un > 2 ^ 63 then None
         else Some (if neg then - un else un))"

text \<open>
  The parts of a number literal of JSON: whether it has a minus sign, the digits of its
  integer and fraction parts, and its exponent. The literal's value is
  \<open>\<plusminus> digits \<times> 10 ^ (exponent - number of fraction digits)\<close>.
\<close>

definition litMantissa :: "string \<Rightarrow> string" where
  "litMantissa s =
     (let u = (if s \<noteq> [] \<and> hd s = CHR ''-'' then tl s else s);
          m = takeWhile (\<lambda>c. c \<noteq> CHR ''e'' \<and> c \<noteq> CHR ''E'') u
      in filter (\<lambda>c. c \<noteq> CHR ''.'') m)"

definition litFracLen :: "string \<Rightarrow> nat" where
  "litFracLen s =
     (let m = takeWhile (\<lambda>c. c \<noteq> CHR ''e'' \<and> c \<noteq> CHR ''E'') s
      in length (tl (dropWhile (\<lambda>c. c \<noteq> CHR ''.'') m)))"

definition litExponent :: "string \<Rightarrow> int" where
  "litExponent s =
     (let e = dropWhile (\<lambda>c. c \<noteq> CHR ''e'' \<and> c \<noteq> CHR ''E'') s in
      if e = [] then 0
      else if hd (tl e) = CHR ''-'' then - digitsVal (tl (tl e))
      else if hd (tl e) = CHR ''+'' then digitsVal (tl (tl e))
      else digitsVal (tl e))"

text \<open>
  The least magnitude that rounds to no finite binary64 value: half a unit in the last
  place above the largest one.
\<close>

definition float64Overflow :: int where
  "float64Overflow = 2 ^ 1024 - 2 ^ 970"

definition litOverflows :: "string \<Rightarrow> bool" where
  "litOverflows s =
     (let m = digitsVal (litMantissa s);
          k = litExponent s - int (litFracLen s)
      in if 0 \<le> k then m * 10 ^ nat k \<ge> float64Overflow
         else m \<ge> float64Overflow * 10 ^ nat (- k))"

text \<open>
  \<^verbatim>\<open>strconv.ParseFloat(s, 64)\<close> on a number literal that the scanner accepted: the
  nearest binary64 value, or Go's range error when the literal rounds to no finite one.
\<close>

definition ParseFloat :: "string \<Rightarrow> float64 option" where
  "ParseFloat s = (if litOverflows s then None else Some (Nearest s))"

subsection \<open>\<^verbatim>\<open>Unmarshal\<close>\<close>

text \<open>
  A number into a field (\<^verbatim>\<open>literalStore\<close>): \<^verbatim>\<open>ParseInt\<close> for the fields of kind
  \<^verbatim>\<open>int\<close>, \<^verbatim>\<open>ParseFloat\<close> for those of kind \<^verbatim>\<open>float64\<close>. \<open>None\<close> when the
  conversion fails; the field is then left as it was.
\<close>

fun storeNumber :: "field \<Rightarrow> string \<Rightarrow> Metrics \<Rightarrow> Metrics option" where
  "storeNumber FKeypresses s m = map_option (\<lambda>n. m\<lparr>Keypresses := n\<rparr>) (ParseInt s)"
| "storeNumber FMouseClicks s m = map_option (\<lambda>n. m\<lparr>MouseClicks := n\<rparr>) (ParseInt s)"
| "storeNumber FMouseDistanceIn s m = map_option (\<lambda>x. m\<lparr>MouseDistanceIn := x\<rparr>) (ParseFloat s)"
| "storeNumber FMouseDistanceMi s m = map_option (\<lambda>x. m\<lparr>MouseDistanceMi := x\<rparr>) (ParseFloat s)"
| "storeNumber FScrollSteps s m = map_option (\<lambda>n. m\<lparr>ScrollSteps := n\<rparr>) (ParseInt s)"

text \<open>
  The decoder's state: the struct being filled and \<^verbatim>\<open>savedError\<close>, the first error
  met. Decoding goes on after an error, and \<^verbatim>\<open>Unmarshal\<close> returns the saved one.
\<close>

type_synonym decodeState = "Metrics \<times> error option"

fun saveError :: "error \<Rightarrow> decodeState \<Rightarrow> decodeState" where
  "saveError e (m, None) = (m, Some e)"
| "saveError e (m, Some e0) = (m, Some e0)"

text \<open>
  A value into a numeric field: \<^verbatim>\<open>null\<close> leaves the field as it is, a number is
  converted, and every other value is an \<^verbatim>\<open>UnmarshalTypeError\<close>.
\<close>

fun storeField :: "field \<Rightarrow> json \<Rightarrow> decodeState \<Rightarrow> decodeState" where
  "storeField f JNull d = d"
| "storeField f (JNumber s) d =
     (case storeNumber f s (fst d) of
        Some m' \<Rightarrow> (m', snd d)
      | None \<Rightarrow> saveError (UnmarshalTypeError (''number '' @ s)) d)"
| "storeField f (JBool b) d = saveError (UnmarshalTypeError ''bool'') d"
| "storeField f (JString s) d = saveError (UnmarshalTypeError ''string'') d"
| "storeField f (JArray vs) d = saveError (UnmarshalTypeError ''array'') d"
| "storeField f (JObject ms) d = saveError (UnmarshalTypeError ''object'') d"

text \<open>One member of an object: stored when its key names a field, skipped otherwise.\<close>

definition objectMember :: "decodeState \<Rightarrow> string \<times> json \<Rightarrow> decodeState" where
  "objectMember d kv =
     (case lookupField (unquote (fst kv)) of
        None \<Rightarrow> d
      | Some f \<Rightarrow> storeField f (snd kv) d)"

definition object :: "(string \<times> json) list \<Rightarrow> decodeState \<Rightarrow> decodeState" where
  "object ms d = foldl objectMember d ms"

text \<open>
  The top-level value into the struct: an object is decoded member by member,
  \<^verbatim>\<open>null\<close> changes nothing and is no error, every other value is an
  \<^verbatim>\<open>UnmarshalTypeError\<close>.
\<close>

fun valueInto :: "json \<Rightarrow> decodeState \<Rightarrow> decodeState" where
  "valueInto (JObject ms) d = object ms d"
| "valueInto JNull d = d"
| "valueInto (JNumber s) d = saveError (UnmarshalTypeError (''number '' @ s)) d"
| "valueInto (JBool b) d = saveError (UnmarshalTypeError ''bool'') d"
| "valueInto (JString s) d = saveError (UnmarshalTypeError ''string'') d"
| "valueInto (JArray vs) d = saveError (UnmarshalTypeError ''array'') d"

text \<open>
  \<^verbatim>\<open>json.Unmarshal(data, &metrics)\<close>: the struct after the call and the error
  returned. A text that is not JSON leaves the struct untouched.
\<close>

definition Unmarshal :: "bytes \<Rightarrow> Metrics \<Rightarrow> Metrics \<times> error option" where
  "Unmarshal data m =
     (case scan data of
        None \<Rightarrow> (m, Some SyntaxError)
      | Some v \<Rightarrow> valueInto v (m, None))"

section \<open>The process state\<close>

text \<open>
  What \<^verbatim>\<open>fmt.Sprintf\<close> and the \<^verbatim>\<open>log\<close> functions are given: the format and its
  arguments, kept as they are passed. A title or a log line is a string constant of the
  source or such a formatted text.
\<close>

datatype arg = ArgInt int | ArgFloat float64 | ArgString string | ArgError error | ArgMetrics Metrics

datatype rendered = Literal string | Sprintf string "arg list"

text \<open>
  The menu of the tray icon. A \<^verbatim>\<open>*systray.MenuItem\<close> is the index of its entry in the
  menu; \<^verbatim>\<open>nil\<close> is \<open>None\<close>.
\<close>

datatype menu_entry = MenuItem rendered string | Separator

datatype UnixListener = Listening | Closed

text \<open>
  A connection, seen from the reader: what successive reads will find, in order. A
  \<open>Data\<close> segment is the bytes that are there when a read returns (a read takes at most
  its buffer's length of them); \<open>ReadError\<close> is a read that fails, the end of the stream
  included. When the list is empty the read blocks.
\<close>

datatype segment = Data bytes | ReadError error

type_synonym conn = "segment list"

text \<open>The outcome of one \<^verbatim>\<open>listener.Accept()\<close>.\<close>

datatype accepted = AcceptOk conn | AcceptError error

text \<open>
  Where a goroutine that runs \<^verbatim>\<open>handleConnection\<close> stands: at the \<^verbatim>\<open>conn.Read\<close> of
  line 81, inside the call \<^verbatim>\<open>updateMenuItems(&metrics)\<close> of line 94 before the statement
  of the given line, or returned. \<open>metrics\<close> is the goroutine's own variable.
\<close>

datatype line = line137 | line142 | line147 | line148 | line149 | line151

datatype position = AtRead | InUpdateMenuItems Metrics line | Returned

record reader =
  conn :: conn
  position :: position

text \<open>The goroutine of \<^verbatim>\<open>startSocketListener\<close>: not started, before \<^verbatim>\<open>net.Listen\<close>, in the accept loop.\<close>

datatype golistener = NotStarted | AtListen | AtAccept

text \<open>
  The state of the process: the package variables of \<^verbatim>\<open>main.go\<close>; the closure variable
  \<open>mQuit\<close>; what the operating system holds at \<^verbatim>\<open>sockAddr\<close> (whether a file is there,
  and whether the system refuses to remove it or to bind there); the tray icon and its
  menu, with the \<^verbatim>\<open>SetTitle\<close> calls made on menu items; the log; the exit status; and
  where each goroutine stands.
\<close>

record state =
  mKeyPresses :: "nat option"
  mMouseClicks :: "nat option"
  mMouseDistance :: "nat option"
  mScrollSteps :: "nat option"
  listener :: "UnixListener option"
  isMenuInitialized :: bool
  mQuit :: "nat option"
  sockFile :: bool
  removeDenied :: bool
  listenDenied :: bool
  trayTitle :: string
  trayTooltip :: string
  menu :: "menu_entry list"
  setTitleCalls :: "(nat \<times> rendered) list"
  logged :: "rendered list"
  exited :: "nat option"
  socketListener :: golistener
  systrayRunning :: bool
  onReadyPc :: nat
  quitWaiting :: bool
  quitCalled :: bool
  readers :: "reader list"

text \<open>The process before \<open>main\<close> runs, for a given state of the file system.\<close>

definition initial :: "bool \<Rightarrow> bool \<Rightarrow> bool \<Rightarrow> state" where
  "initial file rdenied ldenied =
     \<lparr>mKeyPresses = None, mMouseClicks = None, mMouseDistance = None, mScrollSteps = None,
      listener = None, isMenuInitialized = False, mQuit = None,
      sockFile = file, removeDenied = rdenied, listenDenied = ldenied,
      trayTitle = [], trayTooltip = [], menu = [], setTitleCalls = [], logged = [],
      exited = None, socketListener = NotStarted, systrayRunning = False, onReadyPc = 0,
      quitWaiting = False, quitCalled = False, readers = []\<rparr>"

section \<open>The library calls\<close>

definition Println :: "string \<Rightarrow> state \<Rightarrow> state" where
  "Println msg s = s\<lparr>logged := logged s @ [Literal msg]\<rparr>"

definition Printf :: "string \<Rightarrow> arg list \<Rightarrow> state \<Rightarrow> state" where
  "Printf format args s = s\<lparr>logged := logged s @ [Sprintf format args]\<rparr>"

text \<open>\<^verbatim>\<open>log.Fatalf\<close> logs and calls \<^verbatim>\<open>os.Exit(1)\<close>.\<close>

definition Fatalf :: "string \<Rightarrow> arg list \<Rightarrow> state \<Rightarrow> state" where
  "Fatalf format args s = (Printf format args s)\<lparr>exited := Some 1\<rparr>"

text \<open>A run-time panic (a method called through a nil pointer) ends the process with status 2.\<close>

definition panic :: "state \<Rightarrow> state" where
  "panic s = s\<lparr>exited := Some 2\<rparr>"

definition IsNotExist :: "error \<Rightarrow> bool" where
  "IsNotExist e = (e = ErrNotExist)"

text \<open>\<^verbatim>\<open>os.Remove(sockAddr)\<close>.\<close>

definition Remove :: "state \<Rightarrow> error option \<times> state" where
  "Remove s =
     (if \<not> sockFile s then (Some ErrNotExist, s)
      else if removeDenied s then (Some (Errno ''operation not permitted''), s)
      else (None, s\<lparr>sockFile := False\<rparr>))"

text \<open>
  \<^verbatim>\<open>net.Listen("unix", sockAddr)\<close>: binding fails when a file is at the address or when
  the system refuses; otherwise the socket file is created.
\<close>

definition Listen :: "state \<Rightarrow> (UnixListener option \<times> error option) \<times> state" where
  "Listen s =
     (if sockFile s then ((None, Some (Errno ''bind: address already in use'')), s)
      else if listenDenied s then ((None, Some (Errno ''bind: permission denied'')), s)
      else ((Some Listening, None), s\<lparr>sockFile := True\<rparr>))"

text \<open>
  \<^verbatim>\<open>listener.Close()\<close> on the package variable. The first close of a listener also
  unlinks its socket file; a second one returns an error. Through a nil interface the
  call panics.
\<close>

definition Close :: "state \<Rightarrow> error option \<times> state" where
  "Close s =
     (case listener s of
        None \<Rightarrow> (None, panic s)
      | Some Listening \<Rightarrow>
          (None, s\<lparr>listener := Some Closed, sockFile := sockFile s \<and> removeDenied s\<rparr>)
      | Some Closed \<Rightarrow> (Some ErrClosed, s))"

definition systray_SetTitle :: "string \<Rightarrow> state \<Rightarrow> state" where
  "systray_SetTitle t s = s\<lparr>trayTitle := t\<rparr>"

definition systray_SetTooltip :: "string \<Rightarrow> state \<Rightarrow> state" where
  "systray_SetTooltip t s = s\<lparr>trayTooltip := t\<rparr>"

definition AddMenuItem :: "string \<Rightarrow> string \<Rightarrow> state \<Rightarrow> nat \<times> state" where
  "AddMenuItem title tooltip s =
     (length (menu s), s\<lparr>menu := menu s @ [MenuItem (Literal title) tooltip]\<rparr>)"

definition AddSeparator :: "state \<Rightarrow> state" where
  "AddSeparator s = s\<lparr>menu := menu s @ [Separator]\<rparr>"

definition systray_Quit :: "state \<Rightarrow> state" where
  "systray_Quit s = s\<lparr>quitCalled := True\<rparr>"

fun retitle :: "rendered \<Rightarrow> menu_entry \<Rightarrow> menu_entry" where
  "retitle t (MenuItem old tooltip) = MenuItem t tooltip"
| "retitle t Separator = Separator"

text \<open>\<^verbatim>\<open>item.SetTitle(t)\<close>; through a nil pointer the call panics.\<close>

definition MenuItem_SetTitle :: "nat option \<Rightarrow> rendered \<Rightarrow> state \<Rightarrow> state" where
  "MenuItem_SetTitle item t s =
     (case item of
        None \<Rightarrow> panic s
      | Some h \<Rightarrow>
          s\<lparr>menu := (menu s)[h := retitle t (menu s ! h)],
            setTitleCalls := setTitleCalls s @ [(h, t)]\<rparr>)"

text \<open>
  \<^verbatim>\<open>conn.Read(buffer)\<close> with a buffer of \<open>n\<close> bytes: the bytes read or the error, and
  the connection afterwards; \<open>None\<close> when the read blocks.
\<close>

fun Read :: "nat \<Rightarrow> conn \<Rightarrow> ((error + bytes) \<times> conn) option" where
  "Read n [] = None"
| "Read n (ReadError err # c) = Some (Inl err, c)"
| "Read n (Data bs # c) =
     (if length bs \<le> n then Some (Inr bs, c)
      else Some (Inr (take n bs), Data (drop n bs) # c))"

section \<open>The functions of \<^verbatim>\<open>main.go\<close>\<close>

text \<open>\<^verbatim>\<open>cleanup\<close>, lines 128 to 134. Both calls drop the error they return.\<close>

definition cleanup :: "state \<Rightarrow> state" where
  "cleanup s =
     (let s1 = Println ''Cleaning up...'' s;
          s2 = (if listener s1 \<noteq> None then snd (Close s1) else s1)
      in snd (Remove s2))"

text \<open>\<^verbatim>\<open>onExit\<close>, lines 123 to 126.\<close>

definition onExit :: "state \<Rightarrow> state" where
  "onExit s = cleanup (Println ''systray.OnExit called'' s)"

text \<open>
  \<^verbatim>\<open>main\<close>, lines 32 to 42. \<^verbatim>\<open>go startSocketListener()\<close> starts that goroutine and
  \<^verbatim>\<open>systray.Run(onReady, onExit)\<close> the tray, which will call \<open>onReady\<close>.
\<close>

definition main :: "state \<Rightarrow> state" where
  "main s =
     (let s1 = Println ''Starting Go application...'' s;
          (err, s2) = Remove s1
      in if err \<noteq> None \<and> \<not> IsNotExist (the err)
         then Fatalf ''Failed to remove existing socket file: %v'' [ArgError (the err)] s2
         else (Println ''Starting systray...'' s2)
                \<lparr>socketListener := AtListen, systrayRunning := True\<rparr>)"

text \<open>
  \<^verbatim>\<open>updateMenuItems\<close>, lines 136 to 152. The four titles are the \<^verbatim>\<open>fmt.Sprintf\<close>
  calls of lines 147 to 151.
\<close>

definition keypressesTitle :: "Metrics \<Rightarrow> rendered" where
  "keypressesTitle metrics = Sprintf ''Keypresses: %d'' [ArgInt (Keypresses metrics)]"

definition mouseClicksTitle :: "Metrics \<Rightarrow> rendered" where
  "mouseClicksTitle metrics = Sprintf ''Mouse Clicks: %d'' [ArgInt (MouseClicks metrics)]"

definition mouseDistanceTitle :: "Metrics \<Rightarrow> rendered" where
  "mouseDistanceTitle metrics =
     Sprintf ''Mouse Travel: %.2f in / %.2f mi''
       [ArgFloat (MouseDistanceIn metrics), ArgFloat (MouseDistanceMi metrics)]"

definition scrollStepsTitle :: "Metrics \<Rightarrow> rendered" where
  "scrollStepsTitle metrics = Sprintf ''Scroll Steps: %d'' [ArgInt (ScrollSteps metrics)]"

definition updateMenuItems :: "Metrics \<Rightarrow> state \<Rightarrow> state" where
  "updateMenuItems metrics s =
     (if \<not> isMenuInitialized s
      then Println ''Menu items not initialized, skipping update'' s
      else if mKeyPresses s = None \<or> mMouseClicks s = None
              \<or> mMouseDistance s = None \<or> mScrollSteps s = None
      then Println ''Menu items are nil, skipping update'' s
      else
        (let s1 = MenuItem_SetTitle (mKeyPresses s) (keypressesTitle metrics) s;
             s2 = MenuItem_SetTitle (mMouseClicks s1) (mouseClicksTitle metrics) s1;
             s3 = MenuItem_SetTitle (mMouseDistance s2) (mouseDistanceTitle metrics) s2
         in MenuItem_SetTitle (mScrollSteps s3) (scrollStepsTitle metrics) s3))"

text \<open>
  The same function one statement at a time, for a goroutine that other goroutines
  interleave with: the statement at a line, giving the next line (\<open>None\<close> when the
  function returns) and the state.
\<close>

fun updateStep :: "Metrics \<Rightarrow> line \<Rightarrow> state \<Rightarrow> line option \<times> state" where
  "updateStep metrics line137 s =
     (if \<not> isMenuInitialized s
      then (None, Println ''Menu items not initialized, skipping update'' s)
      else (Some line142, s))"
| "updateStep metrics line142 s =
     (if mKeyPresses s = None \<or> mMouseClicks s = None
         \<or> mMouseDistance s = None \<or> mScrollSteps s = None
      then (None, Println ''Menu items are nil, skipping update'' s)
      else (Some line147, s))"
| "updateStep metrics line147 s =
     (Some line148, MenuItem_SetTitle (mKeyPresses s) (keypressesTitle metrics) s)"
| "updateStep metrics line148 s =
     (Some line149, MenuItem_SetTitle (mMouseClicks s) (mouseClicksTitle metrics) s)"
| "updateStep metrics line149 s =
     (Some line151, MenuItem_SetTitle (mMouseDistance s) (mouseDistanceTitle metrics) s)"
| "updateStep metrics line151 s =
     (None, MenuItem_SetTitle (mScrollSteps s) (scrollStepsTitle metrics) s)"

fun updateRun :: "nat \<Rightarrow> Metrics \<Rightarrow> line \<Rightarrow> state \<Rightarrow> state" where
  "updateRun 0 metrics l s = s"
| "updateRun (Suc n) metrics l s =
     (case updateStep metrics l s of
        (None, s') \<Rightarrow> s'
      | (Some l', s') \<Rightarrow> updateRun n metrics l' s')"

text \<open>
  \<^verbatim>\<open>handleConnection\<close>, lines 78 to 96, run on its own: the loop over what the
  connection delivers. It ends \<open>Returned\<close> after a read error, or \<open>AtRead\<close> when the
  goroutine is blocked in \<^verbatim>\<open>conn.Read\<close> with nothing more to read. The function has
  no call of \<^verbatim>\<open>conn.Close\<close>.
\<close>

definition connSize :: "conn \<Rightarrow> nat" where
  "connSize c = sum_list (map (\<lambda>g. case g of Data bs \<Rightarrow> Suc (length bs) | ReadError e \<Rightarrow> 1) c)"

function handleConnection :: "conn \<Rightarrow> state \<Rightarrow> position \<times> state" where
  "handleConnection c s =
     (case Read 1024 c of
        None \<Rightarrow> (AtRead, s)
      | Some (Inl err, c') \<Rightarrow>
          (Returned, Printf ''Error reading from socket: %v\<newline>'' [ArgError err] s)
      | Some (Inr buffer, c') \<Rightarrow>
          (case Unmarshal buffer Metrics_zero of
             (metrics, Some err) \<Rightarrow>
               handleConnection c'
                 (Printf ''Error unmarshaling metrics: %v\<newline>'' [ArgError err] s)
           | (metrics, None) \<Rightarrow>
               handleConnection c'
                 (updateMenuItems metrics
                    (Printf ''Received metrics: %+v\<newline>'' [ArgMetrics metrics] s))))"
  by pat_completeness auto

lemma Read_smaller: "Read n c = Some (r, c') \<Longrightarrow> 0 < n \<Longrightarrow> connSize c' < connSize c"
  by (induction n c rule: Read.induct) (auto simp: connSize_def split: if_splits)

termination handleConnection
  by (relation "measure (\<lambda>(c, s). connSize c)") (auto dest: Read_smaller)

declare handleConnection.simps [simp del]

text \<open>
  \<^verbatim>\<open>onReady\<close>, lines 98 to 120, as the list of its statements: the tray calls it on
  its own thread, and the goroutines that read connections run between its statements.
  The statement of line 111 starts the goroutine that waits for a click on \<open>mQuit\<close>.
\<close>

definition onReady_body :: "(state \<Rightarrow> state) list" where
  "onReady_body =
     [Println ''systray.OnReady called'',
      systray_SetTitle [CHR 0xF0, CHR 0x9F, CHR 0x93, CHR 0x8A],
      systray_SetTooltip ''KawaiiLogger'',
      (\<lambda>s. case AddMenuItem ''Keypresses: 0'' ''Number of keypresses'' s of
              (item, s') \<Rightarrow> s'\<lparr>mKeyPresses := Some item\<rparr>),
      (\<lambda>s. case AddMenuItem ''Mouse Clicks: 0'' ''Number of mouse clicks'' s of
              (item, s') \<Rightarrow> s'\<lparr>mMouseClicks := Some item\<rparr>),
      (\<lambda>s. case AddMenuItem ''Mouse Travel: 0 in / 0 mi'' ''Distance moved by mouse'' s of
              (item, s') \<Rightarrow> s'\<lparr>mMouseDistance := Some item\<rparr>),
      (\<lambda>s. case AddMenuItem ''Scroll Steps: 0'' ''Number of scroll steps'' s of
              (item, s') \<Rightarrow> s'\<lparr>mScrollSteps := Some item\<rparr>),
      AddSeparator,
      (\<lambda>s. case AddMenuItem ''Quit'' ''Quit the application'' s of
              (item, s') \<Rightarrow> s'\<lparr>mQuit := Some item\<rparr>),
      (\<lambda>s. s\<lparr>quitWaiting := True\<rparr>),
      (\<lambda>s. s\<lparr>isMenuInitialized := True\<rparr>),
      Println ''systray.OnReady completed'']"

definition onReady :: "state \<Rightarrow> state" where
  "onReady s = foldl (\<lambda>s stmt. stmt s) s onReady_body"

text \<open>The goroutine of lines 111 to 116, once \<open>mQuit\<close> is clicked.\<close>

definition quitClicked :: "state \<Rightarrow> state" where
  "quitClicked s =
     (systray_Quit (cleanup (Println ''Quit clicked, cleaning up...'' s)))\<lparr>quitWaiting := False\<rparr>"

text \<open>
  \<^verbatim>\<open>startSocketListener\<close>, lines 44 to 63. First the lines up to the loop; the
  assignment of line 47 sets \<open>listener\<close> also when \<^verbatim>\<open>net.Listen\<close> fails. The
  deferred \<^verbatim>\<open>listener.Close()\<close> of line 51 would run when the function returns, which
  the loop below never lets it do. \<^verbatim>\<open>connectToSocket\<close>, lines 65 to 76, is called
  nowhere and has no part in the model.
\<close>

definition listenSocket :: "state \<Rightarrow> state" where
  "listenSocket s =
     (let s1 = Println ''Creating Unix socket...'' s;
          ((l, err), s2) = Listen s1;
          s3 = s2\<lparr>listener := l\<rparr>
      in case err of
           Some e \<Rightarrow> Fatalf ''Failed to create Unix socket: %v'' [ArgError e] s3
         | None \<Rightarrow>
             Printf ''Unix socket created at %s\<newline>'' [ArgString ''/tmp/kawaiilogger.sock''] s3)"

text \<open>\<^verbatim>\<open>go handleConnection(conn)\<close>: a new goroutine, at the start of the function.\<close>

definition go_handleConnection :: "conn \<Rightarrow> state \<Rightarrow> state" where
  "go_handleConnection c s = s\<lparr>readers := readers s @ [\<lparr>conn = c, position = AtRead\<rparr>]\<rparr>"

text \<open>
  The loop of lines 54 to 62, over the outcomes of its calls of
  \<^verbatim>\<open>listener.Accept()\<close>. The loop has no exit: when the outcomes given are used up
  the goroutine is inside the next \<^verbatim>\<open>Accept\<close>.
\<close>

fun acceptLoop :: "accepted list \<Rightarrow> state \<Rightarrow> state" where
  "acceptLoop [] s = s"
| "acceptLoop (AcceptError err # rest) s =
     acceptLoop rest (Printf ''Error accepting connection: %v'' [ArgError err] s)"
| "acceptLoop (AcceptOk c # rest) s =
     acceptLoop rest (go_handleConnection c (Println ''Client connected'' s))"

definition startSocketListener :: "accepted list \<Rightarrow> state \<Rightarrow> state" where
  "startSocketListener outcomes s =
     (let s' = listenSocket s
      in if exited s' \<noteq> None then s' else acceptLoop outcomes s')"

section \<open>The goroutines together\<close>

text \<open>
  One step of one goroutine, chosen by the scheduler: the listener goroutine calls
  \<^verbatim>\<open>net.Listen\<close> or goes once round its loop, the tray runs the next statement of
  \<open>onReady\<close>, the reader of index \<open>i\<close> reads and decodes or runs the next statement
  of \<open>updateMenuItems\<close>, the quit item is clicked, the tray leaves its loop after
  \<^verbatim>\<open>systray.Quit\<close> and calls \<open>onExit\<close>, after which \<open>main\<close> returns. A step that is
  not possible in a state gives \<open>None\<close>; no step is possible once the process exited.
\<close>

datatype action =
    DoListen
  | DoAccept accepted
  | DoReady
  | DoRead nat
  | DoUpdate nat
  | DoQuitClick
  | DoExit

definition readStep :: "nat \<Rightarrow> state \<Rightarrow> state option" where
  "readStep i s =
     (if i \<ge> length (readers s) \<or> position (readers s ! i) \<noteq> AtRead then None
      else case Read 1024 (conn (readers s ! i)) of
        None \<Rightarrow> None
      | Some (Inl err, c') \<Rightarrow>
          Some ((Printf ''Error reading from socket: %v\<newline>'' [ArgError err] s)
                  \<lparr>readers := (readers s)[i := \<lparr>conn = c', position = Returned\<rparr>]\<rparr>)
      | Some (Inr buffer, c') \<Rightarrow>
          (case Unmarshal buffer Metrics_zero of
             (metrics, Some err) \<Rightarrow>
               Some ((Printf ''Error unmarshaling metrics: %v\<newline>'' [ArgError err] s)
                       \<lparr>readers := (readers s)[i := \<lparr>conn = c', position = AtRead\<rparr>]\<rparr>)
           | (metrics, None) \<Rightarrow>
               Some ((Printf ''Received metrics: %+v\<newline>'' [ArgMetrics metrics] s)
                       \<lparr>readers := (readers s)
                          [i := \<lparr>conn = c', position = InUpdateMenuItems metrics line137\<rparr>]\<rparr>)))"

definition updateAction :: "nat \<Rightarrow> state \<Rightarrow> state option" where
  "updateAction i s =
     (if i \<ge> length (readers s) then None
      else case position (readers s ! i) of
        InUpdateMenuItems metrics l \<Rightarrow>
          (case updateStep metrics l s of
             (l', s') \<Rightarrow>
               Some (s'\<lparr>readers := (readers s')
                          [i := (readers s' ! i)
                             \<lparr>position := (case l' of None \<Rightarrow> AtRead
                                            | Some n \<Rightarrow> InUpdateMenuItems metrics n)\<rparr>]\<rparr>))
      | _ \<Rightarrow> None)"

fun fire :: "action \<Rightarrow> state \<Rightarrow> state option" where
  "fire DoListen s =
     (if exited s = None \<and> socketListener s = AtListen
      then Some ((listenSocket s)\<lparr>socketListener := AtAccept\<rparr>) else None)"
| "fire (DoAccept outcome) s =
     (if exited s = None \<and> socketListener s = AtAccept
      then Some (acceptLoop [outcome] s) else None)"
| "fire DoReady s =
     (if exited s = None \<and> systrayRunning s \<and> onReadyPc s < length onReady_body
      then Some (((onReady_body ! onReadyPc s) s)\<lparr>onReadyPc := Suc (onReadyPc s)\<rparr>) else None)"
| "fire (DoRead i) s = (if exited s = None then readStep i s else None)"
| "fire (DoUpdate i) s = (if exited s = None then updateAction i s else None)"
| "fire DoQuitClick s =
     (if exited s = None \<and> quitWaiting s then Some (quitClicked s) else None)"
| "fire DoExit s =
     (if exited s = None \<and> quitCalled s
      then Some ((onExit s)\<lparr>exited := Some 0\<rparr>) else None)"

fun run :: "action list \<Rightarrow> state \<Rightarrow> state option" where
  "run [] s = Some s"
| "run (a # as) s = (case fire a s of None \<Rightarrow> None | Some s' \<Rightarrow> run as s')"

text \<open>What the four menu items show: the title of the entry each package variable points to.\<close>

definition titleOf :: "state \<Rightarrow> nat option \<Rightarrow> rendered option" where
  "titleOf s item =
     (case item of
        None \<Rightarrow> None
      | Some h \<Rightarrow>
          if h < length (menu s)
          then (case menu s ! h of MenuItem t tooltip \<Rightarrow> Some t | Separator \<Rightarrow> None)
          else None)"

definition shown :: "state \<Rightarrow> rendered option list" where
  "shown s = map (titleOf s) [mKeyPresses s, mMouseClicks s, mMouseDistance s, mScrollSteps s]"

text \<open>The four titles of one snapshot, in the order of lines 147 to 151.\<close>

definition display :: "Metrics \<Rightarrow> rendered option list" where
  "display metrics =
     [Some (keypressesTitle metrics), Some (mouseClicksTitle metrics),
      Some (mouseDistanceTitle metrics), Some (scrollStepsTitle metrics)]"

section \<open>What a message names\<close>











text \<open>
  The values a \<open>Metrics\<close> can hold: a count is a signed 64-bit integer, a distance a
  finite binary64 value.
\<close>

definition int64 :: "int \<Rightarrow> bool" where
  "int64 n = (- (2 ^ 63) \<le> n \<and> n < 2 ^ 63)"

definition finite64 :: "float64 \<Rightarrow> bool" where
  "finite64 x = (case x of Nearest s \<Rightarrow> \<not> litOverflows s)"

definition representable :: "Metrics \<Rightarrow> bool" where
  "representable m =
     (int64 (Keypresses m) \<and> int64 (MouseClicks m) \<and> int64 (ScrollSteps m)
      \<and> finite64 (MouseDistanceIn m) \<and> finite64 (MouseDistanceMi m))"

section \<open>Predicates and examples used in the statements\<close>

text \<open>What one turn of the accept loop logs, and the reader it starts.\<close>

fun acceptLog :: "accepted \<Rightarrow> rendered" where
  "acceptLog (AcceptError err) = Sprintf ''Error accepting connection: %v'' [ArgError err]"
| "acceptLog (AcceptOk c) = Literal ''Client connected''"

fun acceptedConn :: "accepted \<Rightarrow> reader list" where
  "acceptedConn (AcceptError err) = []"
| "acceptedConn (AcceptOk c) = [\<lparr>conn = c, position = AtRead\<rparr>]"

text \<open>The four package variables for menu items are all non-nil.\<close>

definition handlesSet :: "state \<Rightarrow> bool" where
  "handlesSet s =
     (mKeyPresses s \<noteq> None \<and> mMouseClicks s \<noteq> None
      \<and> mMouseDistance s \<noteq> None \<and> mScrollSteps s \<noteq> None)"

text \<open>
  How far \<open>onReady\<close> has come bounds what is set: each variable is set once the
  statement that assigns it has run, and the flag is set only by the statement of
  line 118.
\<close>

definition readyInv :: "state \<Rightarrow> bool" where
  "readyInv s =
     ((4 \<le> onReadyPc s \<longrightarrow> mKeyPresses s \<noteq> None)
      \<and> (5 \<le> onReadyPc s \<longrightarrow> mMouseClicks s \<noteq> None)
      \<and> (6 \<le> onReadyPc s \<longrightarrow> mMouseDistance s \<noteq> None)
      \<and> (7 \<le> onReadyPc s \<longrightarrow> mScrollSteps s \<noteq> None)
      \<and> (isMenuInitialized s \<longrightarrow> 11 \<le> onReadyPc s))"

text \<open>The part of the state that only \<open>onReady\<close> writes.\<close>

definition ui :: "state \<Rightarrow> nat option \<times> nat option \<times> nat option \<times> nat option \<times> bool \<times> nat"
  where
  "ui s = (mKeyPresses s, mMouseClicks s, mMouseDistance s, mScrollSteps s,
           isMenuInitialized s, onReadyPc s)"

definition isItem :: "menu_entry \<Rightarrow> bool" where
  "isItem e = (case e of MenuItem t tooltip \<Rightarrow> True | Separator \<Rightarrow> False)"

text \<open>
  The menu is set up: the flag is set and the four variables point to four different
  items of the menu.
\<close>

definition menuReady :: "state \<Rightarrow> bool" where
  "menuReady s =
     (isMenuInitialized s
      \<and> (case (mKeyPresses s, mMouseClicks s, mMouseDistance s, mScrollSteps s) of
            (Some k, Some c, Some d, Some w) \<Rightarrow>
              distinct [k, c, d, w]
              \<and> list_all (\<lambda>h. h < length (menu s) \<and> isItem (menu s ! h)) [k, c, d, w]
          | _ \<Rightarrow> False))"

text \<open>Two messages, and the snapshots they decode to.\<close>

definition messageA :: bytes where
  "messageA = ''{\"keypresses\": 1, \"mouse_clicks\": 1, \"mouse_distance_in\": 1.5, \"mouse_distance_mi\": 0.1, \"scroll_steps\": 1}''"

definition messageB :: bytes where
  "messageB = ''{\"keypresses\": 2, \"mouse_clicks\": 2, \"mouse_distance_in\": 2.5, \"mouse_distance_mi\": 0.2, \"scroll_steps\": 2}''"

definition snapshotA :: Metrics where
  "snapshotA = \<lparr>Keypresses = 1, MouseClicks = 1, MouseDistanceIn = Nearest ''1.5'',
     MouseDistanceMi = Nearest ''0.1'', ScrollSteps = 1\<rparr>"

definition snapshotB :: Metrics where
  "snapshotB = \<lparr>Keypresses = 2, MouseClicks = 2, MouseDistanceIn = Nearest ''2.5'',
     MouseDistanceMi = Nearest ''0.2'', ScrollSteps = 2\<rparr>"

text \<open>
  A start of the process with no file at the address: the socket is bound and
  \<open>onReady\<close> runs to its end. \<open>readyState\<close> is the state this leads to.
\<close>

definition startup :: "action list" where
  "startup =
     [DoListen,
      DoReady, DoReady, DoReady, DoReady, DoReady, DoReady,
      DoReady, DoReady, DoReady, DoReady, DoReady, DoReady]"

definition readyState :: state where
  "readyState =
     (onReady (listenSocket (main (initial False False False))))
       \<lparr>socketListener := AtAccept, onReadyPc := 12\<rparr>"

text \<open>
  Two producers connect and each sends one message. The first reader has set the first
  title when the second reader sets all four; then the first reader sets its other three.
\<close>

definition overlapping :: "action list" where
  "overlapping =
     startup @
     [DoAccept (AcceptOk [Data messageA]), DoAccept (AcceptOk [Data messageB]),
      DoRead 0, DoRead 1,
      DoUpdate 0, DoUpdate 0, DoUpdate 0,
      DoUpdate 1, DoUpdate 1, DoUpdate 1, DoUpdate 1, DoUpdate 1, DoUpdate 1,
      DoUpdate 0, DoUpdate 0, DoUpdate 0]"

text \<open>After \<open>startup\<close>, a producer connects and its connection fails at the first read.\<close>

definition connected :: state where
  "connected = acceptLoop [AcceptOk [ReadError EOF]] readyState"

section \<open>Decoding a message\<close>














lemma of_char_int: "(of_char c :: int) = int (of_char c)"
  by (simp add: of_char_def)

lemma digitsVal_nonneg_aux:
  "list_all isDigit ds \<Longrightarrow> 0 \<le> a \<Longrightarrow> 0 \<le> foldl (\<lambda>a c. a * 10 + (of_char c - 48)) (a::int) ds"
proof (induction ds arbitrary: a)
  case Nil
  then show ?case by simp
next
  case (Cons c ds)
  from Cons.prems have "0 \<le> a * 10 + (of_char c - 48)"
    by (simp add: isDigit_def of_char_int)
  with Cons show ?case by simp
qed

lemma digitsVal_nonneg: "list_all isDigit ds \<Longrightarrow> 0 \<le> digitsVal ds"
  by (simp add: digitsVal_def digitsVal_nonneg_aux)

lemma ParseInt_int64: "ParseInt s = Some n \<Longrightarrow> int64 n"
  using digitsVal_nonneg
  by (fastforce simp: ParseInt_def Let_def int64_def split: if_splits)

lemma litOverflows_0: "\<not> litOverflows ''0''"
  by (simp add: litOverflows_def litMantissa_def litExponent_def litFracLen_def digitsVal_def
      float64Overflow_def)

lemma representable_zero: "representable Metrics_zero"
  by (simp add: representable_def Metrics_zero_def int64_def finite64_def float64_zero_def
      litOverflows_0)

lemma storeNumber_representable:
  "storeNumber f s m = Some m' \<Longrightarrow> representable m \<Longrightarrow> representable m'"
  by (cases f)
    (auto simp: representable_def ParseFloat_def finite64_def dest: ParseInt_int64
      split: if_splits)

lemma saveError_fst: "fst (saveError e d) = fst d"
  by (cases d; cases "snd d") auto

lemma storeField_representable:
  "representable (fst d) \<Longrightarrow> representable (fst (storeField f v d))"
  by (cases v) (auto simp: saveError_fst dest: storeNumber_representable split: option.splits)

lemma objectMember_representable:
  "representable (fst d) \<Longrightarrow> representable (fst (objectMember d kv))"
  by (simp add: objectMember_def storeField_representable split: option.splits)

lemma object_representable:
  "representable (fst d) \<Longrightarrow> representable (fst (object ms d))"
  unfolding object_def
  by (induction ms arbitrary: d) (simp_all add: objectMember_representable)

lemma valueInto_representable:
  "representable (fst d) \<Longrightarrow> representable (fst (valueInto v d))"
  by (cases v) (simp_all add: saveError_fst object_representable)

lemma Unmarshal_representable:
  "representable m \<Longrightarrow> representable (fst (Unmarshal data m))"
  by (simp add: Unmarshal_def valueInto_representable split: option.splits)

lemma Unmarshal_negative:
  "Unmarshal ''{\"keypresses\": -5, \"mouse_distance_in\": -1.5}'' Metrics_zero =
     (\<lparr>Keypresses = - 5, MouseClicks = 0, MouseDistanceIn = Nearest ''-1.5'',
       MouseDistanceMi = Nearest ''0'', ScrollSteps = 0\<rparr>, None)"
  by code_simp

text \<open>
  Claim C9, as stated, fails: the message
  \<^verbatim>\<open>{"keypresses": -5, "mouse_distance_in": -1.5}\<close> decodes with no error, to a count
  of -5 and to the distance that the literal \<^verbatim>\<open>-1.5\<close> rounds to.
\<close>

theorem decoded_keypresses_negative:
  "snd (Unmarshal ''{\"keypresses\": -5, \"mouse_distance_in\": -1.5}'' Metrics_zero) = None
   \<and> Keypresses (fst (Unmarshal ''{\"keypresses\": -5, \"mouse_distance_in\": -1.5}''
         Metrics_zero)) < 0
   \<and> MouseDistanceIn (fst (Unmarshal ''{\"keypresses\": -5, \"mouse_distance_in\": -1.5}''
         Metrics_zero)) = Nearest ''-1.5''"
  by (simp add: Unmarshal_negative)

text \<open>
  Claim C9, amended. Every \<open>Metrics\<close> that a successful decode into a zeroed struct
  produces has its three counts within the range of a signed 64-bit integer and its two
  distances finite binary64 values; a value of either kind may be negative.
\<close>

theorem decoded_fields_representable:
  assumes "Unmarshal data Metrics_zero = (m, None)"
  shows "representable m"
  using Unmarshal_representable[OF representable_zero, of data] assms by simp

theorem decoded_fields_representable_witness:
  "Unmarshal ''{\"keypresses\": -5, \"mouse_distance_in\": -1.5}'' Metrics_zero =
     (\<lparr>Keypresses = - 5, MouseClicks = 0, MouseDistanceIn = Nearest ''-1.5'',
       MouseDistanceMi = Nearest ''0'', ScrollSteps = 0\<rparr>, None)
   \<and> representable \<lparr>Keypresses = - 5, MouseClicks = 0, MouseDistanceIn = Nearest ''-1.5'',
       MouseDistanceMi = Nearest ''0'', ScrollSteps = 0\<rparr>"
  using decoded_fields_representable[OF Unmarshal_negative] Unmarshal_negative by simp

section \<open>The connection reader\<close>

lemma handleConnection_Nil: "handleConnection [] s = (AtRead, s)"
  by (subst handleConnection.simps) simp

lemma handleConnection_ReadError:
  "handleConnection (ReadError err # c) s =
     (Returned, Printf ''Error reading from socket: %v\<newline>'' [ArgError err] s)"
  by (subst handleConnection.simps) simp

lemma handleConnection_Data:
  "length bs \<le> 1024 \<Longrightarrow>
   handleConnection (Data bs # c) s =
     (case Unmarshal bs Metrics_zero of
        (metrics, Some err) \<Rightarrow>
          handleConnection c (Printf ''Error unmarshaling metrics: %v\<newline>'' [ArgError err] s)
      | (metrics, None) \<Rightarrow>
          handleConnection c
            (updateMenuItems metrics
               (Printf ''Received metrics: %+v\<newline>'' [ArgMetrics metrics] s)))"
  by (subst handleConnection.simps) simp

lemma onReady_effect:
  "onReady s =
     s\<lparr>mKeyPresses := Some (length (menu s)),
       mMouseClicks := Some (length (menu s) + 1),
       mMouseDistance := Some (length (menu s) + 2),
       mScrollSteps := Some (length (menu s) + 3),
       isMenuInitialized := True,
       mQuit := Some (length (menu s) + 5),
       trayTitle := [CHR 0xF0, CHR 0x9F, CHR 0x93, CHR 0x8A],
       trayTooltip := ''KawaiiLogger'',
       menu := menu s @
         [MenuItem (Literal ''Keypresses: 0'') ''Number of keypresses'',
          MenuItem (Literal ''Mouse Clicks: 0'') ''Number of mouse clicks'',
          MenuItem (Literal ''Mouse Travel: 0 in / 0 mi'') ''Distance moved by mouse'',
          MenuItem (Literal ''Scroll Steps: 0'') ''Number of scroll steps'',
          Separator,
          MenuItem (Literal ''Quit'') ''Quit the application''],
       logged := logged s
         @ [Literal ''systray.OnReady called'', Literal ''systray.OnReady completed''],
       quitWaiting := True\<rparr>"
  by (simp add: onReady_def onReady_body_def Println_def systray_SetTitle_def
      systray_SetTooltip_def AddMenuItem_def AddSeparator_def)

lemma Unmarshal_bad: "Unmarshal ''{bad'' Metrics_zero = (Metrics_zero, Some SyntaxError)"
  by code_simp

lemma Unmarshal_good:
  "Unmarshal ''{\"keypresses\": 5}'' Metrics_zero = (Metrics_zero\<lparr>Keypresses := 5\<rparr>, None)"
  by code_simp

text \<open>
  Claim C2. On one connection, a message that \<open>Unmarshal\<close> rejects followed by one it
  accepts: the reader logs the decode error, does not call \<open>updateMenuItems\<close> for the
  first message, calls it once with the decoded second message, and goes on with the
  rest of the connection. When nothing more has arrived it is back at its read (it has
  not returned, and nothing closed the connection).
\<close>

theorem malformed_message_is_skipped:
  assumes "length bad \<le> 1024" and "length good \<le> 1024"
    and "Unmarshal bad Metrics_zero = (m0, Some err)"
    and "Unmarshal good Metrics_zero = (metrics, None)"
  shows "handleConnection (Data bad # Data good # rest) s =
           handleConnection rest
             (updateMenuItems metrics
                (Printf ''Received metrics: %+v\<newline>'' [ArgMetrics metrics]
                   (Printf ''Error unmarshaling metrics: %v\<newline>'' [ArgError err] s)))
    \<and> handleConnection [Data bad, Data good] s =
           (AtRead,
            updateMenuItems metrics
              (Printf ''Received metrics: %+v\<newline>'' [ArgMetrics metrics]
                 (Printf ''Error unmarshaling metrics: %v\<newline>'' [ArgError err] s)))"
  using assms by (simp add: handleConnection_Data handleConnection_Nil)

theorem malformed_message_is_skipped_witness:
  "length ''{bad'' \<le> 1024 \<and> length ''{\"keypresses\": 5}'' \<le> 1024
   \<and> Unmarshal ''{bad'' Metrics_zero = (Metrics_zero, Some SyntaxError)
   \<and> Unmarshal ''{\"keypresses\": 5}'' Metrics_zero = (Metrics_zero\<lparr>Keypresses := 5\<rparr>, None)
   \<and> fst (handleConnection [Data ''{bad'', Data ''{\"keypresses\": 5}'']
            (onReady (initial False False False))) = AtRead
   \<and> setTitleCalls (snd (handleConnection [Data ''{bad'', Data ''{\"keypresses\": 5}'']
            (onReady (initial False False False)))) =
       [(0, Sprintf ''Keypresses: %d'' [ArgInt 5]),
        (1, Sprintf ''Mouse Clicks: %d'' [ArgInt 0]),
        (2, Sprintf ''Mouse Travel: %.2f in / %.2f mi''
              [ArgFloat (Nearest ''0''), ArgFloat (Nearest ''0'')]),
        (3, Sprintf ''Scroll Steps: %d'' [ArgInt 0])]"
proof -
  have l1: "length ''{bad'' \<le> 1024" and l2: "length ''{\"keypresses\": 5}'' \<le> 1024"
    by simp_all
  have run: "handleConnection [Data ''{bad'', Data ''{\"keypresses\": 5}'']
        (onReady (initial False False False)) =
      (AtRead,
       updateMenuItems (Metrics_zero\<lparr>Keypresses := 5\<rparr>)
         (Printf ''Received metrics: %+v\<newline>''
            [ArgMetrics (Metrics_zero\<lparr>Keypresses := 5\<rparr>)]
            (Printf ''Error unmarshaling metrics: %v\<newline>'' [ArgError SyntaxError]
               (onReady (initial False False False)))))"
    by (rule conjunct2[OF malformed_message_is_skipped[OF l1 l2 Unmarshal_bad Unmarshal_good]])
  have calls: "setTitleCalls
      (updateMenuItems (Metrics_zero\<lparr>Keypresses := 5\<rparr>)
         (Printf ''Received metrics: %+v\<newline>''
            [ArgMetrics (Metrics_zero\<lparr>Keypresses := 5\<rparr>)]
            (Printf ''Error unmarshaling metrics: %v\<newline>'' [ArgError SyntaxError]
               (onReady (initial False False False))))) =
       [(0, Sprintf ''Keypresses: %d'' [ArgInt 5]),
        (1, Sprintf ''Mouse Clicks: %d'' [ArgInt 0]),
        (2, Sprintf ''Mouse Travel: %.2f in / %.2f mi''
              [ArgFloat (Nearest ''0''), ArgFloat (Nearest ''0'')]),
        (3, Sprintf ''Scroll Steps: %d'' [ArgInt 0])]"
    by (simp add: onReady_effect updateMenuItems_def MenuItem_SetTitle_def Printf_def
        initial_def keypressesTitle_def mouseClicksTitle_def mouseDistanceTitle_def
        scrollStepsTitle_def Metrics_zero_def float64_zero_def)
  show ?thesis
    using Unmarshal_bad Unmarshal_good by (simp add: run calls)
qed

section \<open>Rendering before and after \<open>onReady\<close>\<close>

lemma update_not_ready:
  "\<not> isMenuInitialized s \<Longrightarrow>
   updateMenuItems metrics s = Println ''Menu items not initialized, skipping update'' s"
  by (simp add: updateMenuItems_def)

lemma update_after_onReady_calls:
  "setTitleCalls (updateMenuItems metrics (onReady s)) =
     setTitleCalls s @
       [(length (menu s), keypressesTitle metrics),
        (length (menu s) + 1, mouseClicksTitle metrics),
        (length (menu s) + 2, mouseDistanceTitle metrics),
        (length (menu s) + 3, scrollStepsTitle metrics)]"
  by (simp add: onReady_effect updateMenuItems_def MenuItem_SetTitle_def Let_def)

lemma update_after_onReady_shown:
  "shown (updateMenuItems metrics (onReady s)) = display metrics"
  by (simp add: onReady_effect updateMenuItems_def MenuItem_SetTitle_def Let_def shown_def
      display_def titleOf_def nth_append)

lemma onReady_shown:
  "shown (onReady s) =
     [Some (Literal ''Keypresses: 0''), Some (Literal ''Mouse Clicks: 0''),
      Some (Literal ''Mouse Travel: 0 in / 0 mi''), Some (Literal ''Scroll Steps: 0'')]"
  by (simp add: onReady_effect shown_def titleOf_def nth_append)

lemma Println_keeps:
  "menu (Println msg s) = menu s" "setTitleCalls (Println msg s) = setTitleCalls s"
  by (simp_all add: Println_def)

lemma initial_not_ready: "\<not> isMenuInitialized (initial True False False)"
  by (simp add: initial_def)

text \<open>
  Claim C5. While \<open>isMenuInitialized\<close> is false a call of \<open>updateMenuItems\<close> only
  logs that it skips: it makes no \<open>SetTitle\<close> call and leaves the menu as it is, and the
  snapshot is kept nowhere, so that when \<open>onReady\<close> runs afterwards the items show their
  initial titles and still no \<open>SetTitle\<close> call was made. After \<open>onReady\<close>, a call makes
  the four \<open>SetTitle\<close> calls, one per item, with the texts of lines 147 to 151; the
  mouse travel is formatted with \<^verbatim>\<open>%.2f in / %.2f mi\<close> from the inches and the miles.
\<close>

theorem render_skipped_until_ready:
  assumes "\<not> isMenuInitialized s"
  shows "updateMenuItems metrics s = Println ''Menu items not initialized, skipping update'' s
    \<and> setTitleCalls (updateMenuItems metrics s) = setTitleCalls s
    \<and> menu (updateMenuItems metrics s) = menu s
    \<and> shown (onReady (updateMenuItems metrics s)) =
        [Some (Literal ''Keypresses: 0''), Some (Literal ''Mouse Clicks: 0''),
         Some (Literal ''Mouse Travel: 0 in / 0 mi''), Some (Literal ''Scroll Steps: 0'')]
    \<and> setTitleCalls (onReady (updateMenuItems metrics s)) = setTitleCalls s
    \<and> setTitleCalls (updateMenuItems metrics' (onReady s)) =
        setTitleCalls s @
          [(length (menu s), Sprintf ''Keypresses: %d'' [ArgInt (Keypresses metrics')]),
           (length (menu s) + 1, Sprintf ''Mouse Clicks: %d'' [ArgInt (MouseClicks metrics')]),
           (length (menu s) + 2,
              Sprintf ''Mouse Travel: %.2f in / %.2f mi''
                [ArgFloat (MouseDistanceIn metrics'), ArgFloat (MouseDistanceMi metrics')]),
           (length (menu s) + 3, Sprintf ''Scroll Steps: %d'' [ArgInt (ScrollSteps metrics')])]
    \<and> shown (updateMenuItems metrics' (onReady s)) = display metrics'"
proof -
  have skip:
    "updateMenuItems metrics s = Println ''Menu items not initialized, skipping update'' s"
    using assms by (rule update_not_ready)
  have calls: "setTitleCalls (onReady (updateMenuItems metrics s)) = setTitleCalls s"
    by (simp add: skip onReady_effect Println_keeps)
  show ?thesis
    using skip calls
    by (simp add: Println_keeps onReady_shown update_after_onReady_calls
        update_after_onReady_shown keypressesTitle_def mouseClicksTitle_def
        mouseDistanceTitle_def scrollStepsTitle_def)
qed

theorem render_skipped_until_ready_witness:
  "\<not> isMenuInitialized (initial True False False)
   \<and> setTitleCalls (updateMenuItems (Metrics_zero\<lparr>Keypresses := 5\<rparr>)
        (initial True False False)) = []
   \<and> logged (updateMenuItems (Metrics_zero\<lparr>Keypresses := 5\<rparr>) (initial True False False)) =
       [Literal ''Menu items not initialized, skipping update'']
   \<and> shown (updateMenuItems (Metrics_zero\<lparr>Keypresses := 5\<rparr>)
        (onReady (initial True False False))) =
       [Some (Sprintf ''Keypresses: %d'' [ArgInt 5]),
        Some (Sprintf ''Mouse Clicks: %d'' [ArgInt 0]),
        Some (Sprintf ''Mouse Travel: %.2f in / %.2f mi''
                [ArgFloat (Nearest ''0''), ArgFloat (Nearest ''0'')]),
        Some (Sprintf ''Scroll Steps: %d'' [ArgInt 0])]"
  using render_skipped_until_ready[OF initial_not_ready,
      of "Metrics_zero\<lparr>Keypresses := 5\<rparr>" "Metrics_zero\<lparr>Keypresses := 5\<rparr>"]
  by (simp add: initial_def Println_def display_def keypressesTitle_def mouseClicksTitle_def
      mouseDistanceTitle_def scrollStepsTitle_def Metrics_zero_def float64_zero_def)

section \<open>Start and shutdown of the endpoint\<close>

text \<open>
  Claim C6. A second call of \<open>cleanup\<close> changes nothing but the log: the listener is
  as the first call left it (closed, or nil when the socket was never bound), and so is
  the address, where no file is left unless the system refuses the removal. No call of
  \<open>cleanup\<close> ends the process, also not when \<open>listener\<close> is nil: then it only logs
  and removes the file.
\<close>

theorem cleanup_idempotent:
  "cleanup (cleanup s) = Println ''Cleaning up...'' (cleanup s)
   \<and> listener (cleanup s) \<noteq> Some Listening
   \<and> sockFile (cleanup s) = (sockFile s \<and> removeDenied s)
   \<and> exited (cleanup s) = exited s
   \<and> exited (cleanup (cleanup s)) = exited s
   \<and> cleanup (s\<lparr>listener := None\<rparr>) =
       snd (Remove (Println ''Cleaning up...'' (s\<lparr>listener := None\<rparr>)))"
proof (cases "listener s")
  case None
  then show ?thesis
    by (cases "sockFile s"; cases "removeDenied s")
      (simp_all add: cleanup_def Close_def Remove_def Println_def Let_def)
next
  case (Some l)
  then show ?thesis
    by (cases l; cases "sockFile s"; cases "removeDenied s")
      (simp_all add: cleanup_def Close_def Remove_def Println_def Let_def)
qed

text \<open>
  Claim C7. \<open>main\<close> removes the file at the address before the socket is bound. When
  a file is there and the system refuses to remove it, the process exits with status 1
  and the listener goroutine is never started. Otherwise (the file was removed, or there
  was none, which \<open>IsNotExist\<close> lets pass) no file is at the address, the listener
  goroutine is started, and \<open>net.Listen\<close> binds a fresh socket there; when the system
  refuses the bind the process exits with status 1. In any state, a failure of
  \<open>net.Listen\<close> ends the process.
\<close>

theorem startup_removes_stale_socket:
  "(if sockFile s \<and> removeDenied s
    then exited (main s) = Some 1 \<and> socketListener (main s) = socketListener s
    else exited (main s) = exited s \<and> \<not> sockFile (main s)
       \<and> socketListener (main s) = AtListen
       \<and> (if listenDenied s
          then exited (listenSocket (main s)) = Some 1
             \<and> listener (listenSocket (main s)) = None
          else exited (listenSocket (main s)) = exited s
             \<and> listener (listenSocket (main s)) = Some Listening
             \<and> sockFile (listenSocket (main s))))
   \<and> exited (listenSocket t) = (if sockFile t \<or> listenDenied t then Some 1 else exited t)"
  by (simp add: main_def listenSocket_def Remove_def Listen_def Println_def Printf_def
      Fatalf_def IsNotExist_def Let_def)

section \<open>The accept loop\<close>

lemma acceptLoop_effect:
  "acceptLoop outcomes s =
     s\<lparr>logged := logged s @ map acceptLog outcomes,
       readers := readers s @ concat (map acceptedConn outcomes)\<rparr>"
proof (induction outcomes arbitrary: s)
  case Nil
  then show ?case by simp
next
  case (Cons a outcomes)
  then show ?case
    by (cases a) (simp_all add: Printf_def Println_def go_handleConnection_def)
qed

text \<open>
  Claim C8. However many calls of \<open>Accept\<close> fail, with whatever errors, the loop logs
  each error and goes on with the outcomes that follow exactly as it would have without
  the failures; the listener, the exit status and the position of the listener goroutine
  are as before. One failed \<open>Accept\<close>, as a step of the listener goroutine, only adds
  its log line.
\<close>

theorem accept_errors_never_end_the_loop:
  "acceptLoop (map AcceptError errs @ outcomes) s =
     acceptLoop outcomes
       (s\<lparr>logged := logged s
            @ map (\<lambda>err. Sprintf ''Error accepting connection: %v'' [ArgError err]) errs\<rparr>)
   \<and> listener (acceptLoop (map AcceptError errs @ outcomes) s) = listener s
   \<and> exited (acceptLoop (map AcceptError errs @ outcomes) s) = exited s
   \<and> socketListener (acceptLoop (map AcceptError errs @ outcomes) s) = socketListener s
   \<and> fire (DoAccept (AcceptError err)) s =
       (if exited s = None \<and> socketListener s = AtAccept
        then Some (Printf ''Error accepting connection: %v'' [ArgError err] s) else None)"
proof -
  have logs: "map acceptLog (map AcceptError errs) =
      map (\<lambda>err. Sprintf ''Error accepting connection: %v'' [ArgError err]) errs"
    by (simp add: comp_def)
  have none: "concat (map acceptedConn (map AcceptError errs)) = []"
    by (simp add: comp_def)
  show ?thesis
    by (simp add: acceptLoop_effect logs none Printf_def)
qed

section \<open>The goroutines step by step\<close>

text \<open>Run without interruption, the steps of the model are the functions of the source.\<close>

lemma run_onReady:
  assumes "exited s = None" and "systrayRunning s" and "onReadyPc s = 0"
  shows "run [DoReady, DoReady, DoReady, DoReady, DoReady, DoReady,
              DoReady, DoReady, DoReady, DoReady, DoReady, DoReady] s =
           Some ((onReady s)\<lparr>onReadyPc := 12\<rparr>)"
  using assms
  by (simp add: onReady_def onReady_body_def Println_def systray_SetTitle_def
      systray_SetTooltip_def AddMenuItem_def AddSeparator_def)

lemma update_solo:
  assumes "i < length (readers s)"
    and "readers s ! i = \<lparr>conn = c, position = InUpdateMenuItems metrics line137\<rparr>"
    and "exited s = None" and "isMenuInitialized s"
    and "mKeyPresses s = Some k" and "mMouseClicks s = Some cl"
    and "mMouseDistance s = Some d" and "mScrollSteps s = Some w"
  shows "run [DoUpdate i, DoUpdate i, DoUpdate i, DoUpdate i, DoUpdate i, DoUpdate i] s =
           Some ((updateMenuItems metrics s)
                   \<lparr>readers := (readers s)[i := \<lparr>conn = c, position = AtRead\<rparr>]\<rparr>)"
  using assms
  by (simp add: updateAction_def updateMenuItems_def MenuItem_SetTitle_def Let_def)

lemma update_solo_not_ready:
  assumes "i < length (readers s)"
    and "readers s ! i = \<lparr>conn = c, position = InUpdateMenuItems metrics line137\<rparr>"
    and "exited s = None" and "\<not> isMenuInitialized s"
  shows "run [DoUpdate i] s =
           Some ((updateMenuItems metrics s)
                   \<lparr>readers := (readers s)[i := \<lparr>conn = c, position = AtRead\<rparr>]\<rparr>)"
  using assms
  by (simp add: updateAction_def updateMenuItems_def Println_def)

lemma updateRun_updateMenuItems: "updateRun 6 metrics line137 s = updateMenuItems metrics s"
  by (simp add: eval_nat_numeral updateMenuItems_def Let_def)

lemma startSocketListener_bound:
  assumes "\<not> sockFile s" and "\<not> listenDenied s" and "exited s = None"
  shows "startSocketListener outcomes s =
    acceptLoop outcomes
      (Printf ''Unix socket created at %s\<newline>'' [ArgString ''/tmp/kawaiilogger.sock'']
         ((Println ''Creating Unix socket...'' s)\<lparr>sockFile := True, listener := Some Listening\<rparr>))"
  using assms
  by (simp add: startSocketListener_def listenSocket_def Listen_def Println_def Printf_def
      Let_def)

lemma run_startup: "run startup (main (initial False False False)) = Some readyState"
  by code_simp

lemma Unmarshal_messageA: "Unmarshal messageA Metrics_zero = (snapshotA, None)"
  by code_simp

lemma Unmarshal_messageB: "Unmarshal messageB Metrics_zero = (snapshotB, None)"
  by code_simp

subsection \<open>A read failure\<close>

text \<open>
  Claim C4. When the read of a connection fails, its reader logs the error and returns:
  it takes no further step, and whatever else the connection holds is neither read nor
  published. The step changes nothing but the log and that reader. The listener
  goroutine then accepts a new connection as before, and the new reader decodes the
  message it finds and calls \<open>updateMenuItems\<close> with it.
\<close>

theorem read_failure_ends_only_that_reader:
  assumes "i < length (readers s)"
    and "readers s ! i = \<lparr>conn = ReadError err # c, position = AtRead\<rparr>"
    and "exited s = None" and "socketListener s = AtAccept"
    and "length good \<le> 1024" and "Unmarshal good Metrics_zero = (metrics, None)"
  shows
    "(let s1 = (Printf ''Error reading from socket: %v\<newline>'' [ArgError err] s)
                 \<lparr>readers := (readers s)[i := \<lparr>conn = c, position = Returned\<rparr>]\<rparr>;
          s2 = go_handleConnection (Data good # c') (Println ''Client connected'' s1);
          s3 = (Printf ''Received metrics: %+v\<newline>'' [ArgMetrics metrics] s2)
                 \<lparr>readers := (readers s2)
                    [length (readers s) :=
                       \<lparr>conn = c', position = InUpdateMenuItems metrics line137\<rparr>]\<rparr>
      in fire (DoRead i) s = Some s1
       \<and> fire (DoRead i) s1 = None \<and> fire (DoUpdate i) s1 = None
       \<and> fire (DoAccept (AcceptOk (Data good # c'))) s1 = Some s2
       \<and> fire (DoRead (length (readers s))) s2 = Some s3
       \<and> run [DoRead i, DoAccept (AcceptOk (Data good # c')), DoRead (length (readers s))] s
           = Some s3)
     \<and> handleConnection (ReadError err # c) t =
         (Returned, Printf ''Error reading from socket: %v\<newline>'' [ArgError err] t)
     \<and> handleConnection (Data good # c') t =
         handleConnection c'
           (updateMenuItems metrics
              (Printf ''Received metrics: %+v\<newline>'' [ArgMetrics metrics] t))"
proof -
  let ?s1 = "(Printf ''Error reading from socket: %v\<newline>'' [ArgError err] s)
                 \<lparr>readers := (readers s)[i := \<lparr>conn = c, position = Returned\<rparr>]\<rparr>"
  let ?s2 = "go_handleConnection (Data good # c') (Println ''Client connected'' ?s1)"
  let ?s3 = "(Printf ''Received metrics: %+v\<newline>'' [ArgMetrics metrics] ?s2)
                 \<lparr>readers := (readers ?s2)
                    [length (readers s) :=
                       \<lparr>conn = c', position = InUpdateMenuItems metrics line137\<rparr>]\<rparr>"
  have f1: "fire (DoRead i) s = Some ?s1"
    using assms(1-3) by (simp add: readStep_def)
  have e1: "exited ?s1 = None" "socketListener ?s1 = AtAccept"
    "length (readers ?s1) = length (readers s)"
    "readers ?s1 ! i = \<lparr>conn = c, position = Returned\<rparr>"
    using assms(1,3,4) by (simp_all add: Printf_def)
  have f2: "fire (DoRead i) ?s1 = None" "fire (DoUpdate i) ?s1 = None"
    using e1 assms(1) by (simp_all add: readStep_def updateAction_def)
  have f3: "fire (DoAccept (AcceptOk (Data good # c'))) ?s1 = Some ?s2"
    using e1 by simp
  have e2: "exited ?s2 = None" "length (readers ?s2) = Suc (length (readers s))"
    "readers ?s2 ! length (readers s) = \<lparr>conn = Data good # c', position = AtRead\<rparr>"
    using e1 by (simp_all add: go_handleConnection_def Println_def Printf_def nth_append)
  have f4: "fire (DoRead (length (readers s))) ?s2 = Some ?s3"
    using e2 assms(5,6) by (simp add: readStep_def)
  show ?thesis
    using f1 f2 f3 f4 assms(5,6)
    by (simp add: Let_def handleConnection_ReadError handleConnection_Data)
qed

lemma connected_facts:
  "0 < length (readers connected)"
  "readers connected ! 0 = \<lparr>conn = [ReadError EOF], position = AtRead\<rparr>"
  "exited connected = None"
  "socketListener connected = AtAccept"
  "length (readers connected) = 1"
  by code_simp+

lemma run_connected:
  "run (startup @ [DoAccept (AcceptOk [ReadError EOF])]) (main (initial False False False)) = Some connected"
  by code_simp

lemma length_messageA: "length messageA \<le> 1024"
  by code_simp

theorem read_failure_ends_only_that_reader_witness:
  "0 < length (readers connected)
   \<and> readers connected ! 0 = \<lparr>conn = [ReadError EOF], position = AtRead\<rparr>
   \<and> exited connected = None \<and> socketListener connected = AtAccept
   \<and> length messageA \<le> 1024 \<and> Unmarshal messageA Metrics_zero = (snapshotA, None)
   \<and> map_option (\<lambda>t. map position (readers t))
        (run [DoRead 0, DoAccept (AcceptOk [Data messageA]), DoRead 1] connected) =
       Some [Returned, InUpdateMenuItems snapshotA line137]"
proof -
  note th = read_failure_ends_only_that_reader[OF connected_facts(1) connected_facts(2)
      connected_facts(3) connected_facts(4) length_messageA Unmarshal_messageA, of "[]"]
  have rc: "readers connected = [\<lparr>conn = [ReadError EOF], position = AtRead\<rparr>]"
    by code_simp
  have p: "map_option (\<lambda>t. map position (readers t))
        (run [DoRead 0, DoAccept (AcceptOk [Data messageA]), DoRead 1] connected) =
       Some [Returned, InUpdateMenuItems snapshotA line137]"
    using th[THEN conjunct1]
    by (simp add: Let_def rc go_handleConnection_def Println_def Printf_def
        del: run.simps fire.simps)
  show ?thesis
    using connected_facts length_messageA Unmarshal_messageA p by simp
qed


subsection \<open>The flag and the menu items\<close>

lemma readyInv_ui: "ui s' = ui s \<Longrightarrow> readyInv s \<Longrightarrow> readyInv s'"
  by (simp add: ui_def readyInv_def)

lemma acceptLoop_ui: "ui (acceptLoop outcomes s) = ui s"
  by (simp add: acceptLoop_effect ui_def)

lemma listenSocket_ui: "ui (listenSocket s) = ui s"
  by (simp add: ui_def listenSocket_def Listen_def Println_def Printf_def Fatalf_def Let_def
      split: option.splits)

lemma cleanup_ui: "ui (cleanup s) = ui s"
  by (simp add: ui_def cleanup_def Close_def Remove_def Println_def Let_def panic_def
      split: option.splits UnixListener.splits)

lemma quitClicked_ui: "ui (quitClicked s) = ui s"
  using cleanup_ui[of "Println ''Quit clicked, cleaning up...'' s"]
  by (simp add: quitClicked_def systray_Quit_def ui_def Println_def)

lemma onExit_ui: "ui (onExit s) = ui s"
  using cleanup_ui[of "Println ''systray.OnExit called'' s"]
  by (simp add: onExit_def ui_def Println_def)

lemma readStep_ui: "readStep i s = Some s' \<Longrightarrow> ui s' = ui s"
  by (auto simp: readStep_def ui_def Printf_def split: if_splits option.splits sum.splits prod.splits)

lemma MenuItem_SetTitle_ui: "ui (MenuItem_SetTitle item t s) = ui s"
  by (simp add: MenuItem_SetTitle_def ui_def panic_def split: option.splits)

lemma updateStep_ui: "updateStep metrics l s = (l', s') \<Longrightarrow> ui s' = ui s"
  using MenuItem_SetTitle_ui
  by (cases l) (auto simp: Println_def ui_def split: if_splits)

lemma updateAction_ui: "updateAction i s = Some s' \<Longrightarrow> ui s' = ui s"
  by (auto simp: updateAction_def ui_def split: if_splits position.splits prod.splits
      dest!: updateStep_ui)

lemma fire_other_ui: "fire a s = Some s' \<Longrightarrow> a \<noteq> DoReady \<Longrightarrow> ui s' = ui s"
proof (cases a)
  case DoListen
  assume "fire a s = Some s'"
  with DoListen listenSocket_ui[of s] show ?thesis
    by (auto simp: ui_def split: if_splits)
next
  case (DoAccept r)
  assume "fire a s = Some s'"
  with DoAccept acceptLoop_ui[of "[r]" s] show ?thesis
    by (auto split: if_splits)
next
  case DoReady
  assume "a \<noteq> DoReady"
  with DoReady show ?thesis by simp
next
  case (DoRead i)
  assume "fire a s = Some s'"
  with DoRead show ?thesis by (auto split: if_splits dest: readStep_ui)
next
  case (DoUpdate i)
  assume "fire a s = Some s'"
  with DoUpdate show ?thesis by (auto split: if_splits dest: updateAction_ui)
next
  case DoQuitClick
  assume "fire a s = Some s'"
  with DoQuitClick quitClicked_ui[of s] show ?thesis by (auto split: if_splits)
next
  case DoExit
  assume "fire a s = Some s'"
  with DoExit onExit_ui[of s] show ?thesis by (auto simp: ui_def split: if_splits)
qed

lemma below_12: "(n::nat) < 12 \<Longrightarrow> n \<in> {0, 1, 2, 3, 4, 5, 6, 7, 8, 9, 10, 11}"
  by simp arith

lemma length_onReady_body: "length onReady_body = 12"
  by (simp add: onReady_body_def)

lemma fire_ready_inv:
  assumes "readyInv s" and "fire DoReady s = Some s'"
  shows "readyInv s'"
proof -
  from assms(2) have pc: "onReadyPc s < 12"
    and s': "s' = ((onReady_body ! onReadyPc s) s)\<lparr>onReadyPc := Suc (onReadyPc s)\<rparr>"
    by (auto simp: length_onReady_body split: if_splits)
  from below_12[OF pc] assms(1) show ?thesis
    unfolding s' readyInv_def
    by (elim insertE emptyE)
      (simp_all add: onReady_body_def Println_def systray_SetTitle_def
        systray_SetTooltip_def AddMenuItem_def AddSeparator_def)
qed

lemma fire_inv: "readyInv s \<Longrightarrow> fire a s = Some s' \<Longrightarrow> readyInv s'"
  by (cases "a = DoReady") (auto intro: fire_ready_inv readyInv_ui dest: fire_other_ui)

lemma run_inv: "readyInv s \<Longrightarrow> run sched s = Some s' \<Longrightarrow> readyInv s'"
proof (induction sched arbitrary: s)
  case Nil
  then show ?case by simp
next
  case (Cons a sched)
  then show ?case
    by (auto split: option.splits dest: fire_inv)
qed

lemma main_inv: "readyInv (main (initial file rdenied ldenied))"
  by (simp add: readyInv_def main_def initial_def Remove_def Println_def Printf_def Fatalf_def
      IsNotExist_def Let_def)

text \<open>
  Claim C10. In every state the process reaches from its start, by any interleaving of
  the steps of its goroutines, when \<open>isMenuInitialized\<close> is true the four menu-item
  variables are non-nil: the statement of line 142 never takes its skip branch there, and
  \<open>updateMenuItems\<close> makes its four \<open>SetTitle\<close> calls.
\<close>

theorem ready_flag_implies_handles:
  assumes "run sched (main (initial file rdenied ldenied)) = Some s"
    and "isMenuInitialized s"
  shows "handlesSet s
    \<and> updateStep metrics line142 s = (Some line147, s)
    \<and> setTitleCalls (updateMenuItems metrics s) =
        setTitleCalls s @
          [(the (mKeyPresses s), keypressesTitle metrics),
           (the (mMouseClicks s), mouseClicksTitle metrics),
           (the (mMouseDistance s), mouseDistanceTitle metrics),
           (the (mScrollSteps s), scrollStepsTitle metrics)]"
proof -
  have "readyInv s"
    using main_inv assms(1) by (rule run_inv)
  with assms(2) have h: "handlesSet s"
    by (simp add: readyInv_def handlesSet_def)
  with assms(2) show ?thesis
    by (auto simp: handlesSet_def updateMenuItems_def MenuItem_SetTitle_def Let_def)
qed


lemma readyState_ready: "isMenuInitialized readyState"
  by code_simp

theorem ready_flag_implies_handles_witness:
  "run startup (main (initial False False False)) = Some readyState
   \<and> isMenuInitialized readyState
   \<and> handlesSet readyState
   \<and> updateStep snapshotA line142 readyState = (Some line147, readyState)"
  using ready_flag_implies_handles[OF run_startup readyState_ready, of snapshotA]
    run_startup readyState_ready
  by simp

subsection \<open>Publishes that overlap\<close>

lemma overlapping_shown:
  "map_option shown (run overlapping (main (initial False False False))) =
     Some [Some (keypressesTitle snapshotB), Some (mouseClicksTitle snapshotA),
           Some (mouseDistanceTitle snapshotA), Some (scrollStepsTitle snapshotA)]"
  by code_simp

lemma overlapping_positions:
  "map_option (\<lambda>s. map position (readers s))
     (run overlapping (main (initial False False False))) = Some [AtRead, AtRead]"
  by code_simp

text \<open>
  Claim C3, as stated, fails. Two connections are open, one sends \<open>messageA\<close> and the
  other \<open>messageB\<close>, and the two readers run \<open>updateMenuItems\<close> at the same time
  (\<open>overlapping\<close>). Both calls have returned, and the menu shows the keypresses of
  the second snapshot with the clicks, travel and scroll steps of the first: neither
  snapshot as a whole.
\<close>

theorem overlapping_publishes_mix_snapshots:
  "Unmarshal messageA Metrics_zero = (snapshotA, None)
   \<and> Unmarshal messageB Metrics_zero = (snapshotB, None)
   \<and> map_option (\<lambda>s. map position (readers s))
        (run overlapping (main (initial False False False))) = Some [AtRead, AtRead]
   \<and> map_option shown (run overlapping (main (initial False False False))) =
       Some [Some (Sprintf ''Keypresses: %d'' [ArgInt 2]),
             Some (Sprintf ''Mouse Clicks: %d'' [ArgInt 1]),
             Some (Sprintf ''Mouse Travel: %.2f in / %.2f mi''
                     [ArgFloat (Nearest ''1.5''), ArgFloat (Nearest ''0.1'')]),
             Some (Sprintf ''Scroll Steps: %d'' [ArgInt 1])]
   \<and> map_option shown (run overlapping (main (initial False False False)))
       \<noteq> Some (display snapshotA)
   \<and> map_option shown (run overlapping (main (initial False False False)))
       \<noteq> Some (display snapshotB)"
  by (simp add: Unmarshal_messageA Unmarshal_messageB overlapping_positions overlapping_shown
      display_def keypressesTitle_def mouseClicksTitle_def mouseDistanceTitle_def
      scrollStepsTitle_def snapshotA_def snapshotB_def)

lemma retitle_isItem: "isItem (retitle t e) = isItem e"
  by (cases e) (simp_all add: isItem_def)

lemma publish_when_ready:
  assumes "menuReady s"
  shows "shown (updateMenuItems metrics s) = display metrics
    \<and> menuReady (updateMenuItems metrics s)"
proof -
  from assms obtain k c d w where h: "mKeyPresses s = Some k" "mMouseClicks s = Some c"
      "mMouseDistance s = Some d" "mScrollSteps s = Some w"
    and ready: "isMenuInitialized s"
    and dist: "distinct [k, c, d, w]"
    and ok: "k < length (menu s)" "c < length (menu s)" "d < length (menu s)"
      "w < length (menu s)"
      "isItem (menu s ! k)" "isItem (menu s ! c)" "isItem (menu s ! d)" "isItem (menu s ! w)"
    by (auto simp: menuReady_def split: option.splits)
  have m: "menu (updateMenuItems metrics s) =
      (menu s)[k := retitle (keypressesTitle metrics) (menu s ! k),
               c := retitle (mouseClicksTitle metrics) (menu s ! c),
               d := retitle (mouseDistanceTitle metrics) (menu s ! d),
               w := retitle (scrollStepsTitle metrics) (menu s ! w)]"
    using h ready dist
    by (simp add: updateMenuItems_def MenuItem_SetTitle_def Let_def)
  have v: "mKeyPresses (updateMenuItems metrics s) = Some k"
      "mMouseClicks (updateMenuItems metrics s) = Some c"
      "mMouseDistance (updateMenuItems metrics s) = Some d"
      "mScrollSteps (updateMenuItems metrics s) = Some w"
      "isMenuInitialized (updateMenuItems metrics s)"
    using h ready by (simp_all add: updateMenuItems_def MenuItem_SetTitle_def Let_def)
  have items: "\<And>e t. isItem e \<Longrightarrow>
      (case retitle t e of MenuItem x tooltip \<Rightarrow> Some x | Separator \<Rightarrow> None) = Some t"
    by (simp add: isItem_def split: menu_entry.splits)
  show ?thesis
    using dist ok
    by (simp add: shown_def display_def titleOf_def menuReady_def m v items retitle_isItem)
qed

lemma menuReady_onReady: "menuReady (onReady s)"
  by (simp add: onReady_effect menuReady_def nth_append isItem_def)

text \<open>
  Claim C3, amended. A call of \<open>updateMenuItems\<close> takes its four titles from the one
  snapshot it is given, which is the calling goroutine's own variable. When the menu is
  set up and calls do not overlap (each runs to its end before the next starts, as the
  calls of one reader do), the menu shows after each call the whole snapshot of that
  call: after publishing \<open>a\<close> and then \<open>b\<close> it shows \<open>b\<close>. Nothing in the
  program orders the title writes of two readers that publish at the same time.
\<close>

theorem sequential_publishes_show_latest:
  assumes "menuReady s"
  shows "shown (updateMenuItems a s) = display a
    \<and> shown (updateMenuItems b (updateMenuItems a s)) = display b"
  using publish_when_ready[OF assms, of a]
    publish_when_ready[of "updateMenuItems a s" b]
  by simp

theorem sequential_publishes_show_latest_witness:
  "menuReady (onReady (initial False False False))
   \<and> shown (updateMenuItems snapshotB (updateMenuItems snapshotA
        (onReady (initial False False False)))) =
       [Some (Sprintf ''Keypresses: %d'' [ArgInt 2]),
        Some (Sprintf ''Mouse Clicks: %d'' [ArgInt 2]),
        Some (Sprintf ''Mouse Travel: %.2f in / %.2f mi''
                [ArgFloat (Nearest ''2.5''), ArgFloat (Nearest ''0.2'')]),
        Some (Sprintf ''Scroll Steps: %d'' [ArgInt 2])]"
  using sequential_publishes_show_latest[OF menuReady_onReady,
      of snapshotA "initial False False False" snapshotB]
    menuReady_onReady[of "initial False False False"]
  by (simp add: display_def keypressesTitle_def mouseClicksTitle_def
      mouseDistanceTitle_def scrollStepsTitle_def snapshotA_def snapshotB_def)

end
